theory Spec2Isabelle
  imports Complex_Main
begin

section \<open>Values, exceptions and the command channel\<close>

text \<open>
  The Python values that cross the command channel: \<open>None\<close>, booleans, integers,
  strings and string-keyed dictionaries (the reply of \<open>WinGetPos\<close> and of
  \<open>WinGet, List\<close>). Strings are byte lists.
\<close>

datatype pyval =
    VNone
  | VBool bool
  | VInt int
  | VStr string
  | VDict "(string \<times> pyval) list"

text \<open>
  The exceptions the modelled code can raise. \<open>Error\<close> is \<open>ahkpy.exceptions.Error\<close>
  with its \<open>message\<close> attribute (the backend's error level: \<open>1\<close>, \<open>2\<close>, \<open>"FAIL"\<close>).
  \<open>NonIntegerId\<close> is not a Python exception: it marks the one place where the model is
  typed more narrowly than the code, a backend reply that is not an integer being stored
  in the \<open>id: int\<close> field of a handle.
\<close>

datatype exn =
    Error pyval
  | ValueError
  | TypeError
  | AttributeError
  | KeyError
  | RecursionError
  | NonIntegerId

text \<open>
  A field of \<open>Windows\<close> holds the module's \<open>UNSET\<close> object (unconstrained), Python's
  \<open>None\<close> (a window that must not exist) or a value.
\<close>

datatype 'a field = UNSET | PyNone | Val 'a

text \<open>Python truthiness (\<open>bool(v)\<close>, \<open>not v\<close>, \<open>v or d\<close>).\<close>

fun truthy :: "pyval \<Rightarrow> bool" where
  "truthy VNone = False"
| "truthy (VBool b) = b"
| "truthy (VInt n) = (n \<noteq> 0)"
| "truthy (VStr s) = (s \<noteq> [])"
| "truthy (VDict d) = (d \<noteq> [])"

definition py_or :: "pyval \<Rightarrow> pyval \<Rightarrow> pyval" where
  "py_or a b = (if truthy a then a else b)"

text \<open>
  \<open>str(n)\<close> for an integer: decimal digits, with a leading minus sign.
\<close>

fun str_nat :: "nat \<Rightarrow> string" where
  "str_nat n =
     (if n < 10 then [''0123456789'' ! n]
      else str_nat (n div 10) @ [''0123456789'' ! (n mod 10)])"

declare str_nat.simps [simp del]

definition str_int :: "int \<Rightarrow> string" where
  "str_int i = (if i < 0 then CHR ''-'' # str_nat (nat (- i)) else str_nat (nat i))"

subsection \<open>Settings\<close>

text \<open>
  \<open>settings.Settings\<close>, a mutable dataclass. Delays are Python floats, modelled as
  reals (rounding, infinities and NaN are not modelled); \<open>None\<close> is accepted by
  \<open>optional_ms\<close>, hence the option type.
\<close>

record Settings =
  control_delay :: "real option"
  key_delay :: "real option"
  key_duration :: "real option"
  key_delay_play :: "real option"
  key_duration_play :: "real option"
  mouse_delay :: "real option"
  mouse_delay_play :: "real option"
  mouse_speed :: int
  send_level :: int
  send_mode :: string
  win_delay :: "real option"

definition Settings_defaults :: Settings where
  "Settings_defaults =
     \<lparr> control_delay = Some 0.02, key_delay = Some 0.01, key_duration = Some (-1),
       key_delay_play = Some (-1), key_duration_play = Some (-1),
       mouse_delay = Some 0.01, mouse_delay_play = Some (-1),
       mouse_speed = 2, send_level = 0, send_mode = ''input'',
       win_delay = Some 0.1 \<rparr>"

definition optional_ms :: "real option \<Rightarrow> int" where
  "optional_ms v =
     (case v of
        None \<Rightarrow> - 1
      | Some x \<Rightarrow> if x < 0 then - 1 else \<lfloor>x * 1000\<rfloor>)"

subsection \<open>The world: backend, call log, settings objects\<close>

text \<open>
  The automation backend is external. It is a parameter of every operation: a function
  from its own state, a command name and the argument tuple to a reply (a value or a
  raised exception) and its next state. The world keeps the backend's state, the log of
  every \<open>ahk_call\<close> made so far, the store of \<open>Settings\<close> objects (addresses are
  naturals, \<open>next_addr\<close> is the first unused one) and the context variable
  \<open>_current_settings\<close> of the running thread (\<open>None\<close> while it is unset).
  The module-level object \<open>default_settings\<close> lives at address \<open>0\<close>.
\<close>

type_synonym call = "string \<times> pyval list"

type_synonym 'b backend = "'b \<Rightarrow> string \<Rightarrow> pyval list \<Rightarrow> (exn + pyval) \<times> 'b"

record 'b world =
  backend_state :: 'b
  calls :: "call list"
  heap :: "nat \<Rightarrow> Settings"
  next_addr :: nat
  current_settings :: "nat option"

type_synonym ('b, 'a) action = "'b world \<Rightarrow> (exn + 'a) \<times> 'b world"

definition returnM :: "'a \<Rightarrow> ('b, 'a) action" where
  "returnM x w = (Inr x, w)"

definition raiseM :: "exn \<Rightarrow> ('b, 'a) action" where
  "raiseM e w = (Inl e, w)"

definition bindM :: "('b, 'a) action \<Rightarrow> ('a \<Rightarrow> ('b, 'c) action) \<Rightarrow> ('b, 'c) action" where
  "bindM m f w = (case m w of (Inl e, w') \<Rightarrow> (Inl e, w') | (Inr x, w') \<Rightarrow> f x w')"

text \<open>\<open>try: m except Exception as e: h e\<close>.\<close>

definition catchM :: "('b, 'a) action \<Rightarrow> (exn \<Rightarrow> ('b, 'a) action) \<Rightarrow> ('b, 'a) action" where
  "catchM m h w = (case m w of (Inl e, w') \<Rightarrow> h e w' | (Inr x, w') \<Rightarrow> (Inr x, w'))"

text \<open>
  \<open>with global_ahk_lock:\<close>. The lock is reentrant and the model follows one thread, so
  taking it changes nothing.
\<close>

definition with_global_ahk_lock :: "('b, 'a) action \<Rightarrow> ('b, 'a) action" where
  "with_global_ahk_lock m = m"

text \<open>
  What the modelled code takes from outside its own sources, gathered in one record:
  \<^item> \<open>backend\<close>, the automation backend behind \<open>flow.ahk_call\<close>;
  \<^item> \<open>set_key_delay\<close>, the helper \<open>keys._set_key_delay\<close>, which is called by the
    \<open>send\<close> methods and is not among the sources;
  \<^item> \<open>recursion_limit\<close>, how many nested activations of \<open>Control._call\<close> the
    interpreter allows before it raises \<open>RecursionError\<close>;
  \<^item> \<open>tuple_hash\<close>, the interpreter's \<open>hash\<close> on the tuple of the fields of a
    \<open>Windows\<close> object.
\<close>

type_synonym Windows_tuple =
  "string field \<times> string field \<times> int field \<times> int field \<times> string field \<times> string field \<times>
   string field \<times> string field \<times> bool \<times> bool \<times> string field \<times> string"

record 'b env =
  backend :: "'b backend"
  set_key_delay :: "('b, unit) action"
  recursion_limit :: nat
  tuple_hash :: "Windows_tuple \<Rightarrow> int"

text \<open>\<open>flow.ahk_call\<close>: one round trip on the command channel, logged.\<close>

definition ahk_call :: "'b env \<Rightarrow> string \<Rightarrow> pyval list \<Rightarrow> ('b, pyval) action" where
  "ahk_call env cmd args w =
     (case backend env (backend_state w) cmd args of
        (r, s') \<Rightarrow> (r, w\<lparr>backend_state := s', calls := calls w @ [(cmd, args)]\<rparr>))"

definition default_settings :: nat where
  "default_settings = 0"

text \<open>\<open>Settings.copy\<close>: \<open>dc.replace(self)\<close> builds a new object with the same fields.\<close>

definition Settings_copy :: "nat \<Rightarrow> ('b, nat) action" where
  "Settings_copy p w =
     (Inr (next_addr w),
      w\<lparr>heap := (heap w)(next_addr w := heap w p), next_addr := Suc (next_addr w)\<rparr>)"

definition set_settings :: "nat \<Rightarrow> ('b, unit) action" where
  "set_settings p w = (Inr (), w\<lparr>current_settings := Some p\<rparr>)"

definition get_settings :: "('b, nat) action" where
  "get_settings w =
     (case current_settings w of
        Some p \<Rightarrow> (Inr p, w)
      | None \<Rightarrow> bindM (Settings_copy default_settings)
                  (\<lambda>settings. bindM (set_settings settings) (\<lambda>_. returnM settings)) w)"

text \<open>Reading an attribute of a settings object.\<close>

definition getattrM :: "nat \<Rightarrow> (Settings \<Rightarrow> 'a) \<Rightarrow> ('b, 'a) action" where
  "getattrM p field w = (Inr (field (heap w p)), w)"

text \<open>
  Modelled from the spec: \<open>converters.default\<close> is imported by \<open>window.py\<close> but is not
  among the sources. From its call sites and the spec ("omitted parameters retain prior
  values", "merging non-unconstrained fields"): \<open>default(value, dflt, none=N)\<close> is
  \<open>value\<close> unless \<open>value is N\<close>, then \<open>dflt\<close>; \<open>default(func, value, dflt, none=N)\<close>
  applies \<open>func\<close> to a value that is not \<open>N\<close>.
\<close>

definition default3 :: "('a \<Rightarrow> 'c) \<Rightarrow> 'a \<Rightarrow> 'c \<Rightarrow> 'a \<Rightarrow> 'c" where
  "default3 func v dflt none = (if v \<noteq> none then func v else dflt)"

definition default2 :: "'a \<Rightarrow> 'a \<Rightarrow> 'a \<Rightarrow> 'a" where
  "default2 v dflt none = default3 (\<lambda>x. x) v dflt none"

section \<open>The filter specification\<close>

text \<open>
  The frozen dataclass \<open>Windows\<close>. Two fields are renamed: \<open>id\<close> is \<open>ident\<close> and
  \<open>text\<close> is \<open>win_text\<close>.
\<close>

record Windows =
  title :: "string field"
  class_name :: "string field"
  ident :: "int field"
  pid :: "int field"
  exe :: "string field"
  win_text :: "string field"
  exclude_title :: "string field"
  exclude_text :: "string field"
  hidden_windows :: bool
  hidden_text :: bool
  title_mode :: "string field"
  text_mode :: string

text \<open>\<open>Windows()\<close>: every field at its default.\<close>

definition Windows_init :: Windows where
  "Windows_init =
     \<lparr> title = UNSET, class_name = UNSET, ident = UNSET, pid = UNSET, exe = UNSET,
       win_text = UNSET, exclude_title = UNSET, exclude_text = UNSET,
       hidden_windows = False, hidden_text = True,
       title_mode = Val ''startswith'', text_mode = ''fast'' \<rparr>"

text \<open>The keyword arguments shared by \<open>filter\<close> and every \<open>@filtering\<close> method.\<close>

record filter_args =
  arg_title :: "string field"
  arg_class_name :: "string field"
  arg_id :: "int field"
  arg_pid :: "int field"
  arg_exe :: "string field"
  arg_text :: "string field"
  arg_match :: "string field"

definition no_args :: filter_args where
  "no_args =
     \<lparr> arg_title = UNSET, arg_class_name = UNSET, arg_id = UNSET, arg_pid = UNSET,
       arg_exe = UNSET, arg_text = UNSET, arg_match = UNSET \<rparr>"

definition TITLE_MATCH_MODES :: "string set" where
  "TITLE_MATCH_MODES = {''startswith'', ''contains'', ''exact'', ''regex''}"

definition TEXT_MATCH_MODES :: "string set" where
  "TEXT_MATCH_MODES = {''fast'', ''slow''}"

text \<open>\<open>match in TITLE_MATCH_MODES\<close>: neither \<open>None\<close> nor \<open>UNSET\<close> is a member.\<close>

definition in_title_match_modes :: "string field \<Rightarrow> bool" where
  "in_title_match_modes m = (case m of Val s \<Rightarrow> s \<in> TITLE_MATCH_MODES | _ \<Rightarrow> False)"

definition Windows_filter :: "Windows \<Rightarrow> filter_args \<Rightarrow> exn + Windows" where
  "Windows_filter self a =
     (if arg_title a = UNSET \<and> arg_class_name a = UNSET \<and> arg_id a = UNSET \<and>
         arg_pid a = UNSET \<and> arg_exe a = UNSET \<and> arg_text a = UNSET \<and> arg_match a = UNSET
      then Inr self
      else if arg_match a \<noteq> UNSET \<and> \<not> in_title_match_modes (arg_match a)
      then Inl ValueError
      else Inr (self\<lparr>
        title := default2 (arg_title a) (title self) UNSET,
        class_name := default2 (arg_class_name a) (class_name self) UNSET,
        ident := default2 (arg_id a) (ident self) UNSET,
        pid := default2 (arg_pid a) (pid self) UNSET,
        exe := default2 (arg_exe a) (exe self) UNSET,
        win_text := default2 (arg_text a) (win_text self) UNSET,
        title_mode := default2 (arg_match a) (title_mode self) UNSET\<rparr>))"

definition Windows_exclude :: "Windows \<Rightarrow> string field \<Rightarrow> string field \<Rightarrow> Windows" where
  "Windows_exclude self title' text' =
     (if title' = UNSET \<and> text' = UNSET then self
      else self\<lparr>
        exclude_title := default2 title' (exclude_title self) UNSET,
        exclude_text := default2 text' (exclude_text self) UNSET\<rparr>)"

definition Windows_include_hidden_windows :: "Windows \<Rightarrow> bool \<Rightarrow> Windows" where
  "Windows_include_hidden_windows self include = self\<lparr>hidden_windows := include\<rparr>"

definition Windows_exclude_hidden_windows :: "Windows \<Rightarrow> Windows" where
  "Windows_exclude_hidden_windows self = self\<lparr>hidden_windows := False\<rparr>"

definition Windows_include_hidden_text :: "Windows \<Rightarrow> bool \<Rightarrow> Windows" where
  "Windows_include_hidden_text self include = self\<lparr>hidden_text := include\<rparr>"

definition Windows_exclude_hidden_text :: "Windows \<Rightarrow> Windows" where
  "Windows_exclude_hidden_text self = self\<lparr>hidden_text := False\<rparr>"

definition Windows_match_text_slow :: "Windows \<Rightarrow> bool \<Rightarrow> Windows" where
  "Windows_match_text_slow self is_slow =
     (if is_slow then self\<lparr>text_mode := ''slow''\<rparr> else self\<lparr>text_mode := ''fast''\<rparr>)"

text \<open>
  The decorator \<open>filtering\<close>: refine the receiver with the filter arguments, then run the
  method on the refined specification. An exception of \<open>filter\<close> leaves the wrapper
  before the method starts.
\<close>

definition filtering :: "(Windows \<Rightarrow> ('b, 'a) action) \<Rightarrow> Windows \<Rightarrow> filter_args \<Rightarrow> ('b, 'a) action" where
  "filtering func self a =
     (case Windows_filter self a of
        Inl e \<Rightarrow> raiseM e
      | Inr self' \<Rightarrow> func self')"

subsection \<open>Serialising a specification for the backend\<close>

text \<open>
  \<open>str(v)\<close> and \<open>f"{v}"\<close> of a field's content: \<open>None\<close> prints as \<open>None\<close>, the
  \<open>UNSET\<close> object by its \<open>__repr__\<close>.
\<close>

definition str_field :: "('a \<Rightarrow> string) \<Rightarrow> 'a field \<Rightarrow> string" where
  "str_field f v = (case v of UNSET \<Rightarrow> ''UNSET'' | PyNone \<Rightarrow> ''None'' | Val x \<Rightarrow> f x)"

text \<open>\<open>" ".join(parts)\<close>.\<close>

fun join_space :: "string list \<Rightarrow> string" where
  "join_space [] = []"
| "join_space [p] = p"
| "join_space (p # q # ps) = p @ '' '' @ join_space (q # ps)"

definition Windows_include :: "Windows \<Rightarrow> string \<times> string" where
  "Windows_include self =
     (let parts =
        (if title self \<noteq> UNSET then [str_field (\<lambda>s. s) (title self)] else []) @
        (if class_name self \<noteq> UNSET
         then [''ahk_class '' @ str_field (\<lambda>s. s) (class_name self)] else []) @
        (if ident self \<noteq> UNSET then [''ahk_id '' @ str_field str_int (ident self)] else []) @
        (if pid self \<noteq> UNSET then [''ahk_pid '' @ str_field str_int (pid self)] else []) @
        (if exe self \<noteq> UNSET then [''ahk_exe '' @ str_field (\<lambda>s. s) (exe self)] else [])
      in (join_space parts, default3 (str_field (\<lambda>s. s)) (win_text self) '''' UNSET))"

definition Windows_exclude_query :: "Windows \<Rightarrow> string \<times> string" where
  "Windows_exclude_query self =
     (default3 (str_field (\<lambda>s. s)) (exclude_title self) '''' UNSET,
      default3 (str_field (\<lambda>s. s)) (exclude_text self) '''' UNSET)"

definition Windows_query :: "Windows \<Rightarrow> string \<times> string \<times> string \<times> string" where
  "Windows_query self =
     (case Windows_include self of (it, ix) \<Rightarrow>
      case Windows_exclude_query self of (et, ex) \<Rightarrow> (it, ix, et, ex))"

text \<open>A tuple of strings spliced into the argument list of a call (\<open>*self._query()\<close>).\<close>

definition args2 :: "string \<times> string \<Rightarrow> pyval list" where
  "args2 p = (case p of (a, b) \<Rightarrow> [VStr a, VStr b])"

definition args4 :: "string \<times> string \<times> string \<times> string \<Rightarrow> pyval list" where
  "args4 p = (case p of (a, b, c, d) \<Rightarrow> [VStr a, VStr b, VStr c, VStr d])"

subsection \<open>Configuring the backend and issuing a command\<close>

definition set_title_match_mode :: "'b env \<Rightarrow> string field \<Rightarrow> ('b, unit) action" where
  "set_title_match_mode env title_mode' =
     (if title_mode' = Val ''startswith''
      then bindM (ahk_call env ''SetTitleMatchMode'' [VInt 1]) (\<lambda>_. returnM ())
      else if title_mode' = Val ''contains''
      then bindM (ahk_call env ''SetTitleMatchMode'' [VInt 2]) (\<lambda>_. returnM ())
      else if title_mode' = Val ''exact''
      then bindM (ahk_call env ''SetTitleMatchMode'' [VInt 3]) (\<lambda>_. returnM ())
      else if title_mode' = Val ''regex''
      then bindM (ahk_call env ''SetTitleMatchMode'' [VStr ''regex'']) (\<lambda>_. returnM ())
      else raiseM ValueError)"

text \<open>\<open>ahk_call("SetWinDelay", optional_ms(get_settings().win_delay))\<close>.\<close>

definition set_win_delay :: "'b env \<Rightarrow> ('b, unit) action" where
  "set_win_delay env =
     bindM get_settings (\<lambda>p.
     bindM (getattrM p win_delay) (\<lambda>d.
     bindM (ahk_call env ''SetWinDelay'' [VInt (optional_ms d)]) (\<lambda>_. returnM ())))"

definition set_control_delay :: "'b env \<Rightarrow> ('b, unit) action" where
  "set_control_delay env =
     bindM get_settings (\<lambda>p.
     bindM (getattrM p control_delay) (\<lambda>d.
     bindM (ahk_call env ''SetControlDelay'' [VInt (optional_ms d)]) (\<lambda>_. returnM ())))"

text \<open>\<open>Windows._call\<close>: a specification with \<open>None\<close> in one of six fields matches nothing.\<close>

definition has_none :: "Windows \<Rightarrow> bool" where
  "has_none self =
     (title self = PyNone \<or> class_name self = PyNone \<or> ident self = PyNone \<or>
      pid self = PyNone \<or> exe self = PyNone \<or> win_text self = PyNone)"

definition Windows_call :: "'b env \<Rightarrow> Windows \<Rightarrow> string \<Rightarrow> pyval list \<Rightarrow> bool \<Rightarrow> ('b, pyval) action" where
  "Windows_call env self cmd args set_delay =
     (if has_none self then returnM VNone
      else with_global_ahk_lock (
        bindM (if hidden_windows self
               then ahk_call env ''DetectHiddenWindows'' [VStr ''On'']
               else ahk_call env ''DetectHiddenWindows'' [VStr ''Off'']) (\<lambda>_.
        bindM (if win_text self \<noteq> UNSET \<or> exclude_text self \<noteq> UNSET
               then (if hidden_text self
                     then bindM (ahk_call env ''DetectHiddenText'' [VStr ''On'']) (\<lambda>_. returnM ())
                     else bindM (ahk_call env ''DetectHiddenText'' [VStr ''Off'']) (\<lambda>_. returnM ()))
               else returnM ()) (\<lambda>_.
        bindM (set_title_match_mode env (title_mode self)) (\<lambda>_.
        bindM (if text_mode self = ''fast''
               then bindM (ahk_call env ''SetTitleMatchMode'' [VStr ''fast'']) (\<lambda>_. returnM ())
               else if text_mode self = ''slow''
               then bindM (ahk_call env ''SetTitleMatchMode'' [VStr ''slow'']) (\<lambda>_. returnM ())
               else raiseM ValueError) (\<lambda>_.
        bindM (if set_delay then set_win_delay env else returnM ()) (\<lambda>_.
        ahk_call env cmd args)))))))"

section \<open>Handles\<close>

text \<open>
  \<open>WindowHandle\<close> is a frozen dataclass with the single field \<open>id: int\<close>; its two
  concrete classes are \<open>Window\<close> and \<open>Control\<close>. The constructor of the datatype is the
  class of the object, so a method that the classes override is a case distinction.
\<close>

datatype WindowHandle = Window int | Control int

fun handle_id :: "WindowHandle \<Rightarrow> int" where
  "handle_id (Window n) = n"
| "handle_id (Control n) = n"

text \<open>\<open>WindowHandle.__bool__\<close>.\<close>

definition handle_bool :: "WindowHandle \<Rightarrow> bool" where
  "handle_bool self = (handle_id self \<noteq> 0)"

text \<open>\<open>WindowHandle._include\<close>.\<close>

definition handle_include :: "WindowHandle \<Rightarrow> string \<times> string" where
  "handle_include self = (''ahk_id '' @ str_int (handle_id self), '''')"

text \<open>
  \<open>Window(win_id)\<close> on a value that came from the backend: the field is declared
  \<open>id: int\<close>.
\<close>

definition Window_of :: "pyval \<Rightarrow> ('b, WindowHandle) action" where
  "Window_of v = (case v of VInt n \<Rightarrow> returnM (Window n) | _ \<Rightarrow> raiseM NonIntegerId)"

section \<open>Queries and actions on a specification\<close>

definition Windows_exist :: "'b env \<Rightarrow> Windows \<Rightarrow> filter_args \<Rightarrow> ('b, WindowHandle) action" where
  "Windows_exist env = filtering (\<lambda>self.
     bindM (Windows_call env self ''WinExist'' (args4 (Windows_query self)) False) (\<lambda>r.
     Window_of (py_or r (VInt 0))))"

definition Windows_first :: "'b env \<Rightarrow> Windows \<Rightarrow> filter_args \<Rightarrow> ('b, WindowHandle) action" where
  "Windows_first = Windows_exist"

definition Windows_last :: "'b env \<Rightarrow> Windows \<Rightarrow> filter_args \<Rightarrow> ('b, WindowHandle) action" where
  "Windows_last env = filtering (\<lambda>self.
     bindM (Windows_call env self ''WinGet'' (VStr ''IDLast'' # args4 (Windows_query self)) False) (\<lambda>r.
     Window_of (py_or r (VInt 0))))"

definition Windows_get_active :: "'b env \<Rightarrow> Windows \<Rightarrow> filter_args \<Rightarrow> ('b, WindowHandle) action" where
  "Windows_get_active env = filtering (\<lambda>self.
     (let query = Windows_query self;
          query = (if query = ('''', '''', '''', '''') then (''A'', '''', '''', '''') else query)
      in bindM (Windows_call env self ''WinActive'' (args4 query) False) (\<lambda>r.
         Window_of (py_or r (VInt 0)))))"

text \<open>
  \<open>Windows._wait\<close>. The last line, \<open>windows.first()\<close>, is a query on the module's
  unconstrained specification \<open>windows = Windows()\<close>.
\<close>

definition Windows__wait :: "'b env \<Rightarrow> Windows \<Rightarrow> string \<Rightarrow> pyval \<Rightarrow> ('b, WindowHandle) action" where
  "Windows__wait env self cmd timeout =
     with_global_ahk_lock (
       bindM (Windows_call env self cmd
                (args2 (Windows_include self) @ [py_or timeout (VStr '''')] @
                 args2 (Windows_exclude_query self)) True) (\<lambda>timed_out.
       if timed_out = VNone \<or> truthy timed_out then returnM (Window 0)
       else Windows_first env Windows_init no_args))"

definition Windows_wait :: "'b env \<Rightarrow> Windows \<Rightarrow> filter_args \<Rightarrow> pyval \<Rightarrow> ('b, WindowHandle) action" where
  "Windows_wait env self a timeout = filtering (\<lambda>self. Windows__wait env self ''WinWait'' timeout) self a"

definition Windows_wait_active :: "'b env \<Rightarrow> Windows \<Rightarrow> filter_args \<Rightarrow> pyval \<Rightarrow> ('b, WindowHandle) action" where
  "Windows_wait_active env self a timeout =
     filtering (\<lambda>self. Windows__wait env self ''WinWaitActive'' timeout) self a"

definition Windows_wait_inactive :: "'b env \<Rightarrow> Windows \<Rightarrow> filter_args \<Rightarrow> pyval \<Rightarrow> ('b, WindowHandle) action" where
  "Windows_wait_inactive env self a timeout =
     filtering (\<lambda>self. Windows__wait env self ''WinWaitNotActive'' timeout) self a"

definition Windows_wait_close :: "'b env \<Rightarrow> Windows \<Rightarrow> filter_args \<Rightarrow> pyval \<Rightarrow> ('b, bool) action" where
  "Windows_wait_close env self a timeout = filtering (\<lambda>self.
     bindM (Windows_call env self ''WinWaitClose''
              (args2 (Windows_include self) @ [py_or timeout (VStr '''')] @
               args2 (Windows_exclude_query self)) True) (\<lambda>timed_out.
     returnM (\<not> truthy timed_out))) self a"

text \<open>
  The actions. A method without a \<open>return\<close> statement returns \<open>None\<close>: the unit value
  here, and \<open>None\<close> of an option type where another path returns a value.
\<close>

definition Windows_activate :: "'b env \<Rightarrow> Windows \<Rightarrow> filter_args \<Rightarrow> pyval \<Rightarrow> ('b, WindowHandle option) action" where
  "Windows_activate env self a timeout = filtering (\<lambda>self.
     with_global_ahk_lock (
       bindM (Windows_call env self ''WinActivate'' (args4 (Windows_query self)) True) (\<lambda>_.
       if timeout \<noteq> VNone
       then bindM (Windows_wait_active env self no_args timeout) (\<lambda>h. returnM (Some h))
       else returnM None))) self a"

text \<open>\<open>close\<close> and \<open>kill\<close> pass the timeout between the two halves of the query.\<close>

definition Windows_timed_action :: "string \<Rightarrow> 'b env \<Rightarrow> Windows \<Rightarrow> filter_args \<Rightarrow> pyval \<Rightarrow> ('b, unit) action" where
  "Windows_timed_action cmd env self a timeout = filtering (\<lambda>self.
     bindM (Windows_call env self cmd
              (args2 (Windows_include self) @ [timeout] @ args2 (Windows_exclude_query self)) True)
       (\<lambda>_. returnM ())) self a"

definition Windows_close :: "'b env \<Rightarrow> Windows \<Rightarrow> filter_args \<Rightarrow> pyval \<Rightarrow> ('b, unit) action" where
  "Windows_close = Windows_timed_action ''WinClose''"

definition Windows_kill :: "'b env \<Rightarrow> Windows \<Rightarrow> filter_args \<Rightarrow> pyval \<Rightarrow> ('b, unit) action" where
  "Windows_kill = Windows_timed_action ''WinKill''"

text \<open>\<open>self._call(cmd, *self._query(), set_delay=True)\<close>.\<close>

definition Windows_delayed_action :: "string \<Rightarrow> 'b env \<Rightarrow> Windows \<Rightarrow> filter_args \<Rightarrow> ('b, unit) action" where
  "Windows_delayed_action cmd env = filtering (\<lambda>self.
     bindM (Windows_call env self cmd (args4 (Windows_query self)) True) (\<lambda>_. returnM ()))"

definition Windows_hide :: "'b env \<Rightarrow> Windows \<Rightarrow> filter_args \<Rightarrow> ('b, unit) action" where
  "Windows_hide = Windows_delayed_action ''WinHide''"

definition Windows_maximize :: "'b env \<Rightarrow> Windows \<Rightarrow> filter_args \<Rightarrow> ('b, unit) action" where
  "Windows_maximize = Windows_delayed_action ''WinMaximize''"

definition Windows_minimize :: "'b env \<Rightarrow> Windows \<Rightarrow> filter_args \<Rightarrow> ('b, unit) action" where
  "Windows_minimize = Windows_delayed_action ''WinMinimize''"

definition Windows_restore :: "'b env \<Rightarrow> Windows \<Rightarrow> filter_args \<Rightarrow> ('b, unit) action" where
  "Windows_restore = Windows_delayed_action ''WinRestore''"

definition Windows_show :: "'b env \<Rightarrow> Windows \<Rightarrow> filter_args \<Rightarrow> ('b, unit) action" where
  "Windows_show = Windows_delayed_action ''WinShow''"

text \<open>\<open>self._call("WinSet", subcmd, value, *self._query())\<close>.\<close>

definition Windows_set :: "string \<Rightarrow> string \<Rightarrow> 'b env \<Rightarrow> Windows \<Rightarrow> filter_args \<Rightarrow> ('b, unit) action" where
  "Windows_set subcmd value env = filtering (\<lambda>self.
     bindM (Windows_call env self ''WinSet''
              ([VStr subcmd, VStr value] @ args4 (Windows_query self)) False) (\<lambda>_. returnM ()))"

definition Windows_pin_to_top :: "'b env \<Rightarrow> Windows \<Rightarrow> filter_args \<Rightarrow> ('b, unit) action" where
  "Windows_pin_to_top = Windows_set ''AlwaysOnTop'' ''On''"

definition Windows_unpin_from_top :: "'b env \<Rightarrow> Windows \<Rightarrow> filter_args \<Rightarrow> ('b, unit) action" where
  "Windows_unpin_from_top = Windows_set ''AlwaysOnTop'' ''Off''"

definition Windows_toggle_always_on_top :: "'b env \<Rightarrow> Windows \<Rightarrow> filter_args \<Rightarrow> ('b, unit) action" where
  "Windows_toggle_always_on_top = Windows_set ''AlwaysOnTop'' ''Toggle''"

definition Windows_bring_to_top :: "'b env \<Rightarrow> Windows \<Rightarrow> filter_args \<Rightarrow> ('b, unit) action" where
  "Windows_bring_to_top = Windows_set ''Top'' ''''"

definition Windows_send_to_bottom :: "'b env \<Rightarrow> Windows \<Rightarrow> filter_args \<Rightarrow> ('b, unit) action" where
  "Windows_send_to_bottom = Windows_set ''Bottom'' ''''"

definition Windows_disable :: "'b env \<Rightarrow> Windows \<Rightarrow> filter_args \<Rightarrow> ('b, unit) action" where
  "Windows_disable = Windows_set ''Disable'' ''''"

definition Windows_enable :: "'b env \<Rightarrow> Windows \<Rightarrow> filter_args \<Rightarrow> ('b, unit) action" where
  "Windows_enable = Windows_set ''Enable'' ''''"

definition Windows_redraw :: "'b env \<Rightarrow> Windows \<Rightarrow> filter_args \<Rightarrow> ('b, unit) action" where
  "Windows_redraw = Windows_set ''Redraw'' ''''"

subsection \<open>Group actions\<close>

text \<open>
  A frozen dataclass compares and hashes as the tuple of its fields:
  \<open>__eq__\<close> is equality of the two tuples, \<open>__hash__\<close> is \<open>hash\<close> of the tuple.
\<close>

definition astuple :: "Windows \<Rightarrow> Windows_tuple" where
  "astuple self =
     (title self, class_name self, ident self, pid self, exe self, win_text self,
      exclude_title self, exclude_text self, hidden_windows self, hidden_text self,
      title_mode self, text_mode self)"

definition Windows_eq :: "Windows \<Rightarrow> Windows \<Rightarrow> bool" where
  "Windows_eq a b = (astuple a = astuple b)"

definition Windows_hash :: "'b env \<Rightarrow> Windows \<Rightarrow> int" where
  "Windows_hash env self = tuple_hash env (astuple self)"

text \<open>\<open>str(hash(self)).replace("-", "m")\<close>, the name of the backend's window group.\<close>

definition group_name :: "'b env \<Rightarrow> Windows \<Rightarrow> string" where
  "group_name env self =
     map (\<lambda>c. if c = CHR ''-'' then CHR ''m'' else c) (str_int (Windows_hash env self))"

definition Windows__group_action :: "'b env \<Rightarrow> Windows \<Rightarrow> string \<Rightarrow> pyval \<Rightarrow> ('b, bool option) action" where
  "Windows__group_action env self cmd timeout =
     (if Windows_eq self Windows_init \<and> cmd = ''WinMinimize''
      then bindM (Windows_call env self ''WinMinimizeAll'' [] True) (\<lambda>_. returnM None)
      else
        (let query_hash_str = group_name env self; label = '''' in
         bindM (Windows_call env self ''GroupAdd''
                  ([VStr query_hash_str] @ args2 (Windows_include self) @ [VStr label] @
                   args2 (Windows_exclude_query self)) False) (\<lambda>_.
         bindM (Windows_call env self cmd
                  [VStr (''ahk_group '' @ query_hash_str), VStr '''', timeout] True) (\<lambda>_.
         if timeout \<noteq> VNone
         then bindM (Windows_exist env self no_args) (\<lambda>h. returnM (Some (\<not> handle_bool h)))
         else returnM None))))"

definition Windows_close_all :: "'b env \<Rightarrow> Windows \<Rightarrow> filter_args \<Rightarrow> pyval \<Rightarrow> ('b, bool option) action" where
  "Windows_close_all env self a timeout =
     filtering (\<lambda>self. Windows__group_action env self ''WinClose'' timeout) self a"

definition Windows_hide_all :: "'b env \<Rightarrow> Windows \<Rightarrow> filter_args \<Rightarrow> ('b, bool option) action" where
  "Windows_hide_all env = filtering (\<lambda>self. Windows__group_action env self ''WinHide'' VNone)"

definition Windows_kill_all :: "'b env \<Rightarrow> Windows \<Rightarrow> filter_args \<Rightarrow> pyval \<Rightarrow> ('b, bool option) action" where
  "Windows_kill_all env self a timeout =
     filtering (\<lambda>self. Windows__group_action env self ''WinKill'' timeout) self a"

definition Windows_maximize_all :: "'b env \<Rightarrow> Windows \<Rightarrow> filter_args \<Rightarrow> ('b, bool option) action" where
  "Windows_maximize_all env = filtering (\<lambda>self. Windows__group_action env self ''WinMaximize'' VNone)"

definition Windows_minimize_all :: "'b env \<Rightarrow> Windows \<Rightarrow> filter_args \<Rightarrow> ('b, bool option) action" where
  "Windows_minimize_all env = filtering (\<lambda>self. Windows__group_action env self ''WinMinimize'' VNone)"

definition Windows_restore_all :: "'b env \<Rightarrow> Windows \<Rightarrow> filter_args \<Rightarrow> ('b, unit) action" where
  "Windows_restore_all env = filtering (\<lambda>self.
     bindM (Windows__group_action env self ''WinRestore'' VNone) (\<lambda>_. returnM ()))"

definition Windows_show_all :: "'b env \<Rightarrow> Windows \<Rightarrow> filter_args \<Rightarrow> ('b, unit) action" where
  "Windows_show_all env = filtering (\<lambda>self.
     bindM (Windows__group_action env self ''WinShow'' VNone) (\<lambda>_. returnM ()))"

subsection \<open>Sending keys, iterating, counting\<close>

definition Windows_send :: "'b env \<Rightarrow> Windows \<Rightarrow> string \<Rightarrow> filter_args \<Rightarrow> ('b, unit) action" where
  "Windows_send env self keys a = filtering (\<lambda>self.
     with_global_ahk_lock (
       bindM (set_key_delay env) (\<lambda>_.
       (let control = '''' in
        bindM (Windows_call env self ''ControlSend''
                 ([VStr control, VStr keys] @ args4 (Windows_query self)) False) (\<lambda>_.
        returnM ()))))) self a"

text \<open>
  \<open>Windows.__iter__\<close> is a generator; the model returns the handles it yields, in order.
  A reply without a \<open>values\<close> method ends in \<open>AttributeError\<close>.
\<close>

fun yield_windows :: "pyval list \<Rightarrow> ('b, WindowHandle list) action" where
  "yield_windows [] = returnM []"
| "yield_windows (win_id # rest) =
     bindM (Window_of win_id) (\<lambda>h. bindM (yield_windows rest) (\<lambda>hs. returnM (h # hs)))"

definition Windows_iter :: "'b env \<Rightarrow> Windows \<Rightarrow> ('b, WindowHandle list) action" where
  "Windows_iter env self =
     bindM (Windows_call env self ''WinGet'' (VStr ''List'' # args4 (Windows_query self)) False)
       (\<lambda>win_ids. case win_ids of
            VNone \<Rightarrow> returnM []
          | VDict d \<Rightarrow> yield_windows (map snd d)
          | _ \<Rightarrow> raiseM AttributeError)"

definition Windows_len :: "'b env \<Rightarrow> Windows \<Rightarrow> ('b, pyval) action" where
  "Windows_len env self =
     bindM (Windows_call env self ''WinGet'' (VStr ''Count'' # args4 (Windows_query self)) False)
       (\<lambda>r. returnM (py_or r (VInt 0)))"

section \<open>Operations on a handle\<close>

text \<open>Python's \<open>==\<close> against an integer or a string literal (\<open>True == 1\<close> holds).\<close>

definition py_eq_int :: "pyval \<Rightarrow> int \<Rightarrow> bool" where
  "py_eq_int v k =
     (case v of VInt n \<Rightarrow> n = k | VBool b \<Rightarrow> (if b then 1 else 0) = k | _ \<Rightarrow> False)"

definition py_eq_str :: "pyval \<Rightarrow> string \<Rightarrow> bool" where
  "py_eq_str v s = (v = VStr s)"

text \<open>\<open>v + k\<close> and \<open>v < k\<close> for an integer \<open>k\<close>: \<open>TypeError\<close> unless \<open>v\<close> is a number.\<close>

definition py_add_int :: "pyval \<Rightarrow> int \<Rightarrow> ('b, int) action" where
  "py_add_int v k =
     (case v of
        VInt n \<Rightarrow> returnM (n + k)
      | VBool b \<Rightarrow> returnM ((if b then 1 else 0) + k)
      | _ \<Rightarrow> raiseM TypeError)"

definition py_lt_int :: "pyval \<Rightarrow> int \<Rightarrow> ('b, bool) action" where
  "py_lt_int v k =
     (case v of
        VInt n \<Rightarrow> returnM (n < k)
      | VBool b \<Rightarrow> returnM ((if b then 1 else 0) < k)
      | _ \<Rightarrow> raiseM TypeError)"

text \<open>\<open>int(x)\<close> of a float truncates towards zero.\<close>

definition py_int_of_real :: "real \<Rightarrow> int" where
  "py_int_of_real x = (if x < 0 then \<lceil>x\<rceil> else \<lfloor>x\<rfloor>)"

text \<open>\<open>s.lower()\<close> on bytes (ASCII letters only) and \<open>p in s\<close> for strings.\<close>

definition lower_char :: "char \<Rightarrow> char" where
  "lower_char c =
     (if (65::nat) \<le> of_char c \<and> of_char c \<le> (90::nat) then char_of (of_char c + (32::nat)) else c)"

definition lower :: "string \<Rightarrow> string" where
  "lower s = map lower_char s"

fun is_substr :: "string \<Rightarrow> string \<Rightarrow> bool" where
  "is_substr p [] = (p = [])"
| "is_substr p (c # cs) = (take (length p) (c # cs) = p \<or> is_substr p cs)"

text \<open>\<open>v.lower()\<close> on a backend reply: only a string has the method.\<close>

definition py_lower :: "pyval \<Rightarrow> ('b, string) action" where
  "py_lower v = (case v of VStr s \<Rightarrow> returnM (lower s) | _ \<Rightarrow> raiseM AttributeError)"

subsection \<open>Issuing a command for a handle\<close>

text \<open>\<open>Window._set_delay\<close> and \<open>Control._set_delay\<close>.\<close>

fun handle__set_delay :: "'b env \<Rightarrow> WindowHandle \<Rightarrow> ('b, unit) action" where
  "handle__set_delay env (Window n) = set_win_delay env"
| "handle__set_delay env (Control n) = set_control_delay env"

text \<open>
  \<open>WindowHandle._call\<close>. The keyword \<open>title_mode\<close> is \<open>None\<close> (\<open>PyNone\<close>) unless the
  caller names a mode.
\<close>

definition WindowHandle__call ::
  "'b env \<Rightarrow> WindowHandle \<Rightarrow> string \<Rightarrow> pyval list \<Rightarrow> bool \<Rightarrow> string field \<Rightarrow> bool \<Rightarrow> ('b, pyval) action" where
  "WindowHandle__call env self cmd args hidden_windows' title_mode' set_delay =
     (if handle_id self = 0 then returnM VNone
      else with_global_ahk_lock (
        bindM (if hidden_windows'
               then ahk_call env ''DetectHiddenWindows'' [VStr ''On'']
               else ahk_call env ''DetectHiddenWindows'' [VStr ''Off'']) (\<lambda>_.
        bindM (if title_mode' \<noteq> PyNone then set_title_match_mode env title_mode'
               else returnM ()) (\<lambda>_.
        bindM (if set_delay then handle__set_delay env self else returnM ()) (\<lambda>_.
        ahk_call env cmd args)))))"

text \<open>
  \<open>Control._call\<close> wraps the inherited method: on \<open>Error\<close> with message \<open>1\<close> it reads
  \<open>super().exists\<close>, which calls \<open>self._call\<close>, that is \<open>Control._call\<close>, again. A backend
  that keeps answering with that error makes the two call each other until the
  interpreter raises \<open>RecursionError\<close>; the first argument counts the activations left.
\<close>

fun Control__call_depth ::
  "nat \<Rightarrow> 'b env \<Rightarrow> WindowHandle \<Rightarrow> string \<Rightarrow> pyval list \<Rightarrow> bool \<Rightarrow> string field \<Rightarrow> bool \<Rightarrow> ('b, pyval) action" where
  "Control__call_depth 0 env self cmd args hidden_windows' title_mode' set_delay =
     raiseM RecursionError"
| "Control__call_depth (Suc d) env self cmd args hidden_windows' title_mode' set_delay =
     catchM (WindowHandle__call env self cmd args hidden_windows' title_mode' set_delay)
       (\<lambda>err. case err of
          Error m \<Rightarrow>
            if py_eq_int m 1
            then bindM (bindM (Control__call_depth d env self ''WinExist''
                                 (args2 (handle_include self)) True PyNone False)
                          (\<lambda>r. returnM (truthy r)))
                   (\<lambda>exists. if \<not> exists then returnM VNone else raiseM err)
            else raiseM err
        | _ \<Rightarrow> raiseM err)"

text \<open>\<open>self._call\<close> as the class of \<open>self\<close> resolves it.\<close>

definition handle__call ::
  "'b env \<Rightarrow> WindowHandle \<Rightarrow> string \<Rightarrow> pyval list \<Rightarrow> bool \<Rightarrow> string field \<Rightarrow> bool \<Rightarrow> ('b, pyval) action" where
  "handle__call env self cmd args hidden_windows' title_mode' set_delay =
     (case self of
        Window n \<Rightarrow> WindowHandle__call env self cmd args hidden_windows' title_mode' set_delay
      | Control n \<Rightarrow>
          Control__call_depth (recursion_limit env) env self cmd args hidden_windows' title_mode' set_delay)"

subsection \<open>\<open>BaseWindow\<close>\<close>

definition BaseWindow_exists :: "'b env \<Rightarrow> WindowHandle \<Rightarrow> ('b, bool) action" where
  "BaseWindow_exists env self =
     bindM (handle__call env self ''WinExist'' (args2 (handle_include self)) True PyNone False)
       (\<lambda>r. returnM (truthy r))"

text \<open>\<open>Window._get\<close> turns an empty reply into \<open>None\<close>; \<open>Control._get\<close> does not.\<close>

definition Window__get :: "'b env \<Rightarrow> WindowHandle \<Rightarrow> string \<Rightarrow> ('b, pyval) action" where
  "Window__get env self subcmd =
     bindM (handle__call env self ''WinGet'' (VStr subcmd # args2 (handle_include self))
              True PyNone False)
       (\<lambda>result. if \<not> py_eq_str result '''' then returnM result else returnM VNone)"

definition Control__get :: "'b env \<Rightarrow> WindowHandle \<Rightarrow> string \<Rightarrow> pyval \<Rightarrow> ('b, pyval) action" where
  "Control__get env self subcmd value =
     handle__call env self ''ControlGet''
       ([VStr subcmd, value, VStr ''''] @ args2 (handle_include self)) True PyNone False"

definition handle__get :: "'b env \<Rightarrow> WindowHandle \<Rightarrow> string \<Rightarrow> ('b, pyval) action" where
  "handle__get env self subcmd =
     (case self of
        Window n \<Rightarrow> Window__get env self subcmd
      | Control n \<Rightarrow> Control__get env self subcmd (VStr ''''))"

text \<open>
  \<open>WindowStyle(style)\<close>: an \<open>IntFlag\<close> is built from an integer (a boolean is one);
  any other value is refused with \<open>ValueError\<close>.
\<close>

definition WindowStyle_of :: "pyval \<Rightarrow> ('b, int) action" where
  "WindowStyle_of v =
     (case v of
        VInt n \<Rightarrow> returnM n
      | VBool b \<Rightarrow> returnM (if b then 1 else 0)
      | _ \<Rightarrow> raiseM ValueError)"

definition WindowStyle_DISABLED :: int where
  "WindowStyle_DISABLED = 0x08000000"

definition WindowStyle_VISIBLE :: int where
  "WindowStyle_VISIBLE = 0x10000000"

text \<open>\<open>flag in style\<close> for an \<open>IntFlag\<close>: every bit of \<open>flag\<close> is set in \<open>style\<close>.\<close>

definition flag_in :: "int \<Rightarrow> int \<Rightarrow> bool" where
  "flag_in flag style' = (and style' flag = flag)"

definition BaseWindow_style :: "'b env \<Rightarrow> WindowHandle \<Rightarrow> ('b, int option) action" where
  "BaseWindow_style env self =
     bindM (handle__get env self ''Style'') (\<lambda>style'.
     if style' \<noteq> VNone then bindM (WindowStyle_of style') (\<lambda>s. returnM (Some s))
     else returnM None)"

definition BaseWindow_is_enabled :: "'b env \<Rightarrow> WindowHandle \<Rightarrow> ('b, bool option) action" where
  "BaseWindow_is_enabled env self =
     bindM (BaseWindow_style env self) (\<lambda>style'.
     case style' of
       Some s \<Rightarrow> returnM (Some (\<not> flag_in WindowStyle_DISABLED s))
     | None \<Rightarrow> returnM None)"

definition BaseWindow_is_visible :: "'b env \<Rightarrow> WindowHandle \<Rightarrow> ('b, bool) action" where
  "BaseWindow_is_visible env self =
     bindM (BaseWindow_style env self) (\<lambda>style'.
     case style' of
       None \<Rightarrow> returnM False
     | Some s \<Rightarrow> returnM (flag_in WindowStyle_VISIBLE s))"

definition BaseWindow_class_name :: "'b env \<Rightarrow> WindowHandle \<Rightarrow> ('b, pyval) action" where
  "BaseWindow_class_name env self =
     bindM (handle__call env self ''WinGetClass'' (args2 (handle_include self)) True PyNone False)
       (\<lambda>class_name'. if \<not> py_eq_str class_name' '''' then returnM class_name'
                       else returnM VNone)"

subsection \<open>Position and size\<close>

text \<open>\<open>result[key]\<close> on a backend reply.\<close>

definition subscript :: "pyval \<Rightarrow> string \<Rightarrow> ('b, pyval) action" where
  "subscript v k =
     (case v of
        VDict d \<Rightarrow> (case map_of d k of Some x \<Rightarrow> returnM x | None \<Rightarrow> raiseM KeyError)
      | _ \<Rightarrow> raiseM TypeError)"

definition handle__get_pos :: "'b env \<Rightarrow> WindowHandle \<Rightarrow> ('b, pyval) action" where
  "handle__get_pos env self =
     (case self of
        Window n \<Rightarrow>
          handle__call env self ''WinGetPos'' (args2 (handle_include self)) True PyNone False
      | Control n \<Rightarrow>
          handle__call env self ''ControlGetPos'' (VStr '''' # args2 (handle_include self))
            True PyNone False)"

definition handle__move :: "'b env \<Rightarrow> WindowHandle \<Rightarrow> pyval \<Rightarrow> pyval \<Rightarrow> pyval \<Rightarrow> pyval \<Rightarrow> ('b, unit) action" where
  "handle__move env self x y width height =
     (case self of
        Window n \<Rightarrow>
          bindM (handle__call env self ''WinMove''
                   (args2 (handle_include self) @ [x, y, width, height]) True PyNone True)
            (\<lambda>_. returnM ())
      | Control n \<Rightarrow>
          bindM (handle__call env self ''ControlMove''
                   ([VStr '''', x, y, width, height] @ args2 (handle_include self)) True PyNone True)
            (\<lambda>_. returnM ()))"

definition BaseWindow_rect :: "'b env \<Rightarrow> WindowHandle \<Rightarrow> ('b, pyval \<times> pyval \<times> pyval \<times> pyval) action" where
  "BaseWindow_rect env self =
     bindM (handle__get_pos env self) (\<lambda>result.
     bindM (if result \<noteq> VNone
            then bindM (subscript result ''X'') (\<lambda>x.
                 bindM (subscript result ''Y'') (\<lambda>y.
                 bindM (subscript result ''Width'') (\<lambda>width.
                 bindM (subscript result ''Height'') (\<lambda>height.
                 returnM (x, y, width, height)))))
            else returnM (VNone, VNone, VNone, VNone)) (\<lambda>(x, y, width, height).
     returnM (if \<not> py_eq_str x '''' then x else VNone,
              if \<not> py_eq_str y '''' then y else VNone,
              if \<not> py_eq_str width '''' then width else VNone,
              if \<not> py_eq_str height '''' then height else VNone)))"

text \<open>
  \<open>BaseWindow.move\<close>. A coordinate is an integer or \<open>None\<close>; \<open>default(int, x, "")\<close>
  sends the empty string for \<open>None\<close>.
\<close>

definition BaseWindow_move ::
  "'b env \<Rightarrow> WindowHandle \<Rightarrow> int option \<Rightarrow> int option \<Rightarrow> int option \<Rightarrow> int option \<Rightarrow> ('b, unit) action" where
  "BaseWindow_move env self x y width height =
     handle__move env self
       (default3 (\<lambda>v. VInt (the v)) x (VStr '''') None)
       (default3 (\<lambda>v. VInt (the v)) y (VStr '''') None)
       (default3 (\<lambda>v. VInt (the v)) width (VStr '''') None)
       (default3 (\<lambda>v. VInt (the v)) height (VStr '''') None)"

definition BaseWindow_set_rect ::
  "'b env \<Rightarrow> WindowHandle \<Rightarrow> int option \<times> int option \<times> int option \<times> int option \<Rightarrow> ('b, unit) action" where
  "BaseWindow_set_rect env self new_rect =
     (case new_rect of (x, y, width, height) \<Rightarrow> BaseWindow_move env self x y width height)"

definition BaseWindow_position :: "'b env \<Rightarrow> WindowHandle \<Rightarrow> ('b, pyval \<times> pyval) action" where
  "BaseWindow_position env self =
     bindM (BaseWindow_rect env self) (\<lambda>(x, y, _, _). returnM (x, y))"

definition BaseWindow_set_position :: "'b env \<Rightarrow> WindowHandle \<Rightarrow> int option \<times> int option \<Rightarrow> ('b, unit) action" where
  "BaseWindow_set_position env self new_position =
     (case new_position of (x, y) \<Rightarrow> BaseWindow_move env self x y None None)"

definition BaseWindow_x :: "'b env \<Rightarrow> WindowHandle \<Rightarrow> ('b, pyval) action" where
  "BaseWindow_x env self = bindM (BaseWindow_rect env self) (\<lambda>(x, _, _, _). returnM x)"

definition BaseWindow_set_x :: "'b env \<Rightarrow> WindowHandle \<Rightarrow> int option \<Rightarrow> ('b, unit) action" where
  "BaseWindow_set_x env self new_x = BaseWindow_move env self new_x None None None"

definition BaseWindow_y :: "'b env \<Rightarrow> WindowHandle \<Rightarrow> ('b, pyval) action" where
  "BaseWindow_y env self = bindM (BaseWindow_rect env self) (\<lambda>(_, y, _, _). returnM y)"

definition BaseWindow_set_y :: "'b env \<Rightarrow> WindowHandle \<Rightarrow> int option \<Rightarrow> ('b, unit) action" where
  "BaseWindow_set_y env self new_y = BaseWindow_move env self None new_y None None"

definition BaseWindow_width :: "'b env \<Rightarrow> WindowHandle \<Rightarrow> ('b, pyval) action" where
  "BaseWindow_width env self = bindM (BaseWindow_rect env self) (\<lambda>(_, _, width, _). returnM width)"

definition BaseWindow_set_width :: "'b env \<Rightarrow> WindowHandle \<Rightarrow> int option \<Rightarrow> ('b, unit) action" where
  "BaseWindow_set_width env self new_width = BaseWindow_move env self None None new_width None"

definition BaseWindow_height :: "'b env \<Rightarrow> WindowHandle \<Rightarrow> ('b, pyval) action" where
  "BaseWindow_height env self = bindM (BaseWindow_rect env self) (\<lambda>(_, _, _, height). returnM height)"

definition BaseWindow_set_height :: "'b env \<Rightarrow> WindowHandle \<Rightarrow> int option \<Rightarrow> ('b, unit) action" where
  "BaseWindow_set_height env self new_height = BaseWindow_move env self None None None new_height"

subsection \<open>Keys and messages\<close>

definition BaseWindow_send :: "'b env \<Rightarrow> WindowHandle \<Rightarrow> string \<Rightarrow> ('b, unit) action" where
  "BaseWindow_send env self keys =
     with_global_ahk_lock (
       bindM (set_key_delay env) (\<lambda>_.
       (let control = '''' in
        catchM (bindM (handle__call env self ''ControlSend''
                         ([VStr control, VStr keys] @ args2 (handle_include self)) True PyNone False)
                  (\<lambda>_. returnM ()))
          (\<lambda>err. case err of
             Error m \<Rightarrow> if py_eq_int m 1 then returnM () else raiseM err
           | _ \<Rightarrow> raiseM err))))"

definition BaseWindow_send_message ::
  "'b env \<Rightarrow> WindowHandle \<Rightarrow> int \<Rightarrow> int \<Rightarrow> int \<Rightarrow> real \<Rightarrow> ('b, pyval) action" where
  "BaseWindow_send_message env self msg w_param l_param timeout =
     catchM (handle__call env self ''SendMessage''
               ([VInt msg, VInt w_param, VInt l_param, VStr ''''] @ args2 (handle_include self) @
                [VStr '''', VStr '''', VInt (py_int_of_real (timeout * 1000))]) True PyNone False)
       (\<lambda>err. case err of
          Error m \<Rightarrow>
            if py_eq_str m ''FAIL''
            then bindM (BaseWindow_exists env self) (\<lambda>exists.
                 if \<not> exists then returnM VNone
                 else raiseM (Error (VStr ''there was a problem sending message or response timed out'')))
            else raiseM err
        | _ \<Rightarrow> raiseM err)"

definition BaseWindow_post_message ::
  "'b env \<Rightarrow> WindowHandle \<Rightarrow> int \<Rightarrow> int \<Rightarrow> int \<Rightarrow> ('b, bool option) action" where
  "BaseWindow_post_message env self msg w_param l_param =
     catchM (bindM (handle__call env self ''PostMessage''
                      ([VInt msg, VInt w_param, VInt l_param, VStr ''''] @ args2 (handle_include self))
                      True PyNone False)
               (\<lambda>err. if err \<noteq> VNone then returnM (Some (\<not> truthy err)) else returnM None))
       (\<lambda>err. case err of
          Error m \<Rightarrow>
            if py_eq_int m 1
            then bindM (BaseWindow_exists env self) (\<lambda>exists.
                 if \<not> exists then returnM None
                 else raiseM (Error (VStr ''there was a problem posting message'')))
            else raiseM err
        | _ \<Rightarrow> raiseM err)"

subsection \<open>\<open>Window\<close>\<close>

definition Window_is_active :: "'b env \<Rightarrow> WindowHandle \<Rightarrow> ('b, bool) action" where
  "Window_is_active env self =
     bindM (handle__call env self ''WinActive'' (args2 (handle_include self)) True PyNone False)
       (\<lambda>r. returnM (truthy r))"

definition Window_wait_active :: "'b env \<Rightarrow> WindowHandle \<Rightarrow> pyval \<Rightarrow> ('b, bool) action" where
  "Window_wait_active env self timeout =
     bindM (handle__call env self ''WinWaitActive'' (args2 (handle_include self) @ [timeout])
              True PyNone True) (\<lambda>timed_out.
     if timed_out = VNone then returnM False else returnM (\<not> truthy timed_out))"

definition Window_wait_inactive :: "'b env \<Rightarrow> WindowHandle \<Rightarrow> pyval \<Rightarrow> ('b, bool) action" where
  "Window_wait_inactive env self timeout =
     bindM (handle__call env self ''WinWaitNotActive'' (args2 (handle_include self) @ [timeout])
              True PyNone True) (\<lambda>timed_out.
     if timed_out = VNone then returnM True else returnM (\<not> truthy timed_out))"

definition Window_wait_hidden :: "'b env \<Rightarrow> WindowHandle \<Rightarrow> pyval \<Rightarrow> ('b, bool) action" where
  "Window_wait_hidden env self timeout =
     bindM (handle__call env self ''WinWaitClose'' (args2 (handle_include self) @ [timeout])
              False PyNone True) (\<lambda>timed_out.
     if timed_out = VNone then returnM True else returnM (\<not> truthy timed_out))"

definition Window_wait_close :: "'b env \<Rightarrow> WindowHandle \<Rightarrow> pyval \<Rightarrow> ('b, bool) action" where
  "Window_wait_close env self timeout =
     bindM (handle__call env self ''WinWaitClose'' (args2 (handle_include self) @ [timeout])
              True PyNone True) (\<lambda>timed_out.
     if timed_out = VNone then returnM True else returnM (\<not> truthy timed_out))"

definition Window_activate :: "'b env \<Rightarrow> WindowHandle \<Rightarrow> pyval \<Rightarrow> ('b, bool option) action" where
  "Window_activate env self timeout =
     bindM (handle__call env self ''WinActivate'' (args2 (handle_include self)) True PyNone False)
       (\<lambda>_. if timeout \<noteq> VNone
             then bindM (Window_wait_active env self timeout) (\<lambda>b. returnM (Some b))
             else returnM None)"

text \<open>\<open>Window.close\<close> and \<open>Window.kill\<close>.\<close>

definition Window_timed_action :: "string \<Rightarrow> 'b env \<Rightarrow> WindowHandle \<Rightarrow> pyval \<Rightarrow> ('b, bool option) action" where
  "Window_timed_action cmd env self timeout =
     bindM (handle__call env self cmd (args2 (handle_include self) @ [timeout]) True PyNone True)
       (\<lambda>_. if timeout \<noteq> VNone
             then bindM (BaseWindow_exists env self) (\<lambda>exists. returnM (Some (\<not> exists)))
             else returnM None)"

definition Window_close :: "'b env \<Rightarrow> WindowHandle \<Rightarrow> pyval \<Rightarrow> ('b, bool option) action" where
  "Window_close = Window_timed_action ''WinClose''"

definition Window_kill :: "'b env \<Rightarrow> WindowHandle \<Rightarrow> pyval \<Rightarrow> ('b, bool option) action" where
  "Window_kill = Window_timed_action ''WinKill''"

text \<open>\<open>hide\<close>, \<open>show\<close>, \<open>maximize\<close>, \<open>minimize\<close>, \<open>restore\<close>.\<close>

definition Window_delayed_action :: "string \<Rightarrow> 'b env \<Rightarrow> WindowHandle \<Rightarrow> ('b, unit) action" where
  "Window_delayed_action cmd env self =
     bindM (handle__call env self cmd (args2 (handle_include self)) True PyNone True)
       (\<lambda>_. returnM ())"

definition Window_hide :: "'b env \<Rightarrow> WindowHandle \<Rightarrow> ('b, unit) action" where
  "Window_hide = Window_delayed_action ''WinHide''"

definition Window_show :: "'b env \<Rightarrow> WindowHandle \<Rightarrow> ('b, unit) action" where
  "Window_show = Window_delayed_action ''WinShow''"

definition Window_maximize :: "'b env \<Rightarrow> WindowHandle \<Rightarrow> ('b, unit) action" where
  "Window_maximize = Window_delayed_action ''WinMaximize''"

definition Window_minimize :: "'b env \<Rightarrow> WindowHandle \<Rightarrow> ('b, unit) action" where
  "Window_minimize = Window_delayed_action ''WinMinimize''"

definition Window_restore :: "'b env \<Rightarrow> WindowHandle \<Rightarrow> ('b, unit) action" where
  "Window_restore = Window_delayed_action ''WinRestore''"

text \<open>\<open>BaseWindow._set\<close>, behind \<open>pin_to_top\<close>, \<open>enable\<close>, \<open>disable\<close>, \<open>redraw\<close> and the rest.\<close>

definition BaseWindow__set :: "'b env \<Rightarrow> WindowHandle \<Rightarrow> string \<Rightarrow> pyval \<Rightarrow> ('b, pyval) action" where
  "BaseWindow__set env self subcmd value =
     handle__call env self ''WinSet'' ([VStr subcmd, value] @ args2 (handle_include self))
       True PyNone False"

subsection \<open>\<open>Control\<close>: list boxes\<close>

definition CB_GETCOUNT :: int where
  "CB_GETCOUNT = 0x146"

definition LB_GETCOUNT :: int where
  "LB_GETCOUNT = 0x18B"

definition Control__count_list_items :: "'b env \<Rightarrow> WindowHandle \<Rightarrow> string \<Rightarrow> ('b, pyval) action" where
  "Control__count_list_items env self option =
     catchM (Control__get env self ''List'' (VStr (''Count '' @ option)))
       (\<lambda>err. case err of
          Error m \<Rightarrow>
            if py_eq_int m 1
            then bindM (BaseWindow_class_name env self) (\<lambda>class_name'.
                 bindM (py_lower class_name') (\<lambda>class_name_lower.
                 if \<not> is_substr ''syslistview32'' class_name_lower then returnM VNone
                 else raiseM (Error (VStr ''there was a problem getting list items''))))
            else raiseM err
        | _ \<Rightarrow> raiseM err)"

definition Control_list_item_count :: "'b env \<Rightarrow> WindowHandle \<Rightarrow> ('b, pyval) action" where
  "Control_list_item_count env self =
     bindM (BaseWindow_class_name env self) (\<lambda>class_name'.
     if class_name' = VNone then returnM VNone
     else bindM (py_lower class_name') (\<lambda>class_name_lower.
       if is_substr ''syslistview32'' class_name_lower
       then Control__count_list_items env self ''''
       else if is_substr ''combo'' class_name_lower \<or> is_substr ''list'' class_name_lower
       then
         (let get_count =
            (if is_substr ''combo'' class_name_lower then CB_GETCOUNT else LB_GETCOUNT)
          in bindM (BaseWindow_send_message env self get_count 0 0 5) (\<lambda>result.
             if result \<noteq> VNone then returnM result else returnM VNone))
       else returnM VNone))"

definition Control_choose_item_index :: "'b env \<Rightarrow> WindowHandle \<Rightarrow> int \<Rightarrow> ('b, unit) action" where
  "Control_choose_item_index env self index =
     bindM (if index < 0
            then bindM (Control_list_item_count env self) (\<lambda>count. py_add_int count index)
            else returnM index) (\<lambda>index.
     catchM (bindM (handle__call env self ''Control'' [VStr ''Choose'', VInt (index + 1)]
                      True PyNone True) (\<lambda>_. returnM ()))
       (\<lambda>err. case err of
          Error m \<Rightarrow>
            if py_eq_int m 1
            then bindM (Control_list_item_count env self) (\<lambda>count.
                 bindM (py_lt_int count (index + 1)) (\<lambda>less.
                 if less then raiseM err else raiseM err))
            else raiseM err
        | _ \<Rightarrow> raiseM err))"

section \<open>Scoped settings\<close>

record SettingsManager =
  new_settings :: nat
  prior_settings :: "nat option"

definition SettingsManager_init :: "nat \<Rightarrow> ('b, SettingsManager) action" where
  "SettingsManager_init new_settings' =
     bindM (Settings_copy new_settings') (\<lambda>c.
     returnM \<lparr>new_settings = c, prior_settings = None\<rparr>)"

definition local_settings :: "nat option \<Rightarrow> ('b, SettingsManager) action" where
  "local_settings settings =
     bindM (case settings of None \<Rightarrow> get_settings | Some s \<Rightarrow> returnM s) SettingsManager_init"

definition SettingsManager_activate :: "SettingsManager \<Rightarrow> ('b, SettingsManager \<times> nat) action" where
  "SettingsManager_activate self =
     bindM get_settings (\<lambda>prior.
     bindM (set_settings (new_settings self)) (\<lambda>_.
     returnM (self\<lparr>prior_settings := Some prior\<rparr>, new_settings self)))"

definition SettingsManager_exit :: "SettingsManager \<Rightarrow> ('b, unit) action" where
  "SettingsManager_exit self =
     (case prior_settings self of
        Some prior \<Rightarrow> set_settings prior
      | None \<Rightarrow> raiseM AttributeError)"

text \<open>
  \<open>with local_settings(settings) as scoped: body\<close>. Python runs \<open>__exit__\<close> on every
  way out of the body; \<open>__exit__\<close> returns \<open>None\<close>, so an exception of the body goes on
  to the caller once \<open>__exit__\<close> is done.
\<close>

definition with_local_settings :: "nat option \<Rightarrow> (nat \<Rightarrow> ('b, 'a) action) \<Rightarrow> ('b, 'a) action" where
  "with_local_settings settings body =
     bindM (local_settings settings) (\<lambda>manager.
     bindM (SettingsManager_activate manager) (\<lambda>(manager, scoped).
     (\<lambda>w. case body scoped w of
        (r, w') \<Rightarrow>
          (case SettingsManager_exit manager w' of
             (Inl e, w'') \<Rightarrow> (Inl e, w'')
           | (Inr _, w'') \<Rightarrow> (r, w'')))))"

text \<open>
  A body that assigns fields of the scoped copy and then ends, normally or with an
  exception. An assignment \<open>scoped.field = v\<close> is a function on the object's record.
\<close>

definition setattrM :: "nat \<Rightarrow> (Settings \<Rightarrow> Settings) \<Rightarrow> ('b, unit) action" where
  "setattrM p assign w = (Inr (), w\<lparr>heap := (heap w)(p := assign (heap w p))\<rparr>)"

fun assign_all :: "nat \<Rightarrow> (Settings \<Rightarrow> Settings) list \<Rightarrow> ('b, unit) action" where
  "assign_all p [] = returnM ()"
| "assign_all p (assign # rest) = bindM (setattrM p assign) (\<lambda>_. assign_all p rest)"

definition scoped_body :: "(Settings \<Rightarrow> Settings) list \<Rightarrow> exn option \<Rightarrow> nat \<Rightarrow> ('b, unit) action" where
  "scoped_body assigns failure scoped =
     bindM (assign_all scoped assigns) (\<lambda>_.
     case failure of None \<Rightarrow> returnM () | Some e \<Rightarrow> raiseM e)"

text \<open>
  Addresses in use are below \<open>next_addr\<close>: \<open>default_settings\<close> exists, and the context
  variable, when set, refers to an existing object.
\<close>

definition allocated :: "'b world \<Rightarrow> bool" where
  "allocated w =
     (default_settings < next_addr w \<and>
      (case current_settings w of None \<Rightarrow> True | Some p \<Rightarrow> p < next_addr w))"

text \<open>
  The settings of the running thread, as \<open>get_settings()\<close> reads them: the current
  object, or the defaults that a first \<open>get_settings()\<close> would copy.
\<close>

definition ambient :: "'b world \<Rightarrow> Settings" where
  "ambient w =
     (case current_settings w of
        Some p \<Rightarrow> heap w p
      | None \<Rightarrow> heap w default_settings)"

section \<open>Reference notions\<close>

text \<open>
  The specification's rule for refining a field, in its own words: a parameter left
  unconstrained retains the prior value, any other argument replaces it.
\<close>

definition spec_merge :: "'a field \<Rightarrow> 'a field \<Rightarrow> 'a field" where
  "spec_merge new old = (case new of UNSET \<Rightarrow> old | _ \<Rightarrow> new)"

text \<open>
  The specifications with every filterable and exclusion field left at \<open>UNSET\<close>, and the
  specifications whose serialised query is four empty strings.
\<close>

definition fully_unconstrained :: "Windows \<Rightarrow> bool" where
  "fully_unconstrained F =
     (title F = UNSET \<and> class_name F = UNSET \<and> ident F = UNSET \<and> pid F = UNSET \<and>
      exe F = UNSET \<and> win_text F = UNSET \<and> exclude_title F = UNSET \<and> exclude_text F = UNSET)"

definition query_is_blank :: "Windows \<Rightarrow> bool" where
  "query_is_blank F =
     ((title F = UNSET \<or> title F = Val '''') \<and> class_name F = UNSET \<and> ident F = UNSET \<and>
      pid F = UNSET \<and> exe F = UNSET \<and> (win_text F = UNSET \<or> win_text F = Val '''') \<and>
      (exclude_title F = UNSET \<or> exclude_title F = Val '''') \<and>
      (exclude_text F = UNSET \<or> exclude_text F = Val ''''))"

section \<open>Concrete instances\<close>

text \<open>
  Specifications: Notepad windows that are not untitled, the same built by another
  route, one whose title is \<open>None\<close>, and one that asks for the exact title \<open>""\<close>.
\<close>

definition spec_notepad :: Windows where
  "spec_notepad = Windows_init\<lparr>class_name := Val ''Notepad'', exclude_title := Val ''Untitled''\<rparr>"

definition spec_notepad_again :: Windows where
  "spec_notepad_again =
     Windows_exclude (Windows_init\<lparr>class_name := Val ''Notepad''\<rparr>) (Val ''Untitled'') UNSET"

definition spec_excluded :: Windows where
  "spec_excluded = Windows_init\<lparr>title := PyNone\<rparr>"

definition spec_empty_title :: Windows where
  "spec_empty_title = Windows_init\<lparr>title := Val '''', title_mode := Val ''exact''\<rparr>"

text \<open>Filter arguments that name one parameter.\<close>

definition args_title :: "string \<Rightarrow> filter_args" where
  "args_title t = no_args\<lparr>arg_title := Val t\<rparr>"

definition args_match :: "string field \<Rightarrow> filter_args" where
  "args_match m = no_args\<lparr>arg_match := m\<rparr>"

text \<open>
  Three backends without state. The first answers every command with \<open>0\<close>. The second
  answers with \<open>1\<close>: every wait reports that it timed out. The third answers with the
  empty string, as the backend does for a window that is gone. In each environment the
  key-delay helper does nothing, eight nested activations of \<open>Control._call\<close> are allowed,
  and every field tuple hashes to \<open>-42\<close>.
\<close>

definition silent_backend :: "unit backend" where
  "silent_backend s cmd args = (Inr (VInt 0), s)"

definition silent_env :: "unit env" where
  "silent_env =
     \<lparr> backend = silent_backend, set_key_delay = returnM (), recursion_limit = 8,
       tuple_hash = (\<lambda>t. - 42) \<rparr>"

definition timeout_backend :: "unit backend" where
  "timeout_backend s cmd args = (Inr (VInt 1), s)"

definition timeout_env :: "unit env" where
  "timeout_env = silent_env\<lparr>backend := timeout_backend\<rparr>"

definition blank_backend :: "unit backend" where
  "blank_backend s cmd args = (Inr (VStr ''''), s)"

definition blank_env :: "unit env" where
  "blank_env = silent_env\<lparr>backend := blank_backend\<rparr>"

text \<open>
  A backend on which controls are gone: \<open>ControlGet\<close> fails with error level \<open>1\<close>,
  every other command answers \<open>0\<close>.
\<close>

definition vanished_backend :: "unit backend" where
  "vanished_backend s cmd args =
     (if cmd = ''ControlGet'' then (Inl (Error (VInt 1)), s) else (Inr (VInt 0), s))"

definition vanished_env :: "unit env" where
  "vanished_env = silent_env\<lparr>backend := vanished_backend\<rparr>"

text \<open>
  The world after the module \<open>settings\<close> has been imported: \<open>default_settings\<close> at
  address \<open>0\<close>, made current by \<open>set_settings(default_settings)\<close>. A new thread starts
  with the context variable unset.
\<close>

definition world0 :: "unit world" where
  "world0 =
     \<lparr> backend_state = (), calls = [], heap = (\<lambda>p. Settings_defaults), next_addr = 1,
       current_settings = Some 0 \<rparr>"

definition world_unset :: "unit world" where
  "world_unset = world0\<lparr>current_settings := None\<rparr>"

text \<open>The assignment \<open>settings.win_delay = 0\<close>.\<close>

definition win_delay_zero :: "Settings \<Rightarrow> Settings" where
  "win_delay_zero s = s\<lparr>win_delay := Some 0\<rparr>"

section \<open>A backend that keeps window geometry\<close>

type_synonym geometry = "int \<times> int \<times> int \<times> int"

text \<open>
  What the backend's move commands do with one coordinate argument: an integer is the
  new value, anything else (the empty string that \<open>move\<close> sends for \<open>None\<close>) keeps
  the old one.
\<close>

definition moved :: "pyval \<Rightarrow> int \<Rightarrow> int" where
  "moved v old = (case v of VInt n \<Rightarrow> n | _ \<Rightarrow> old)"

text \<open>
  The backend is external, so what \<open>WinMove\<close> and \<open>WinGetPos\<close> do is a contract on
  the parameter: \<open>geom s n\<close> is the rectangle of window \<open>n\<close> in backend state \<open>s\<close>.
  For an existing window the two configuration commands succeed and keep every
  rectangle, \<open>WinGetPos\<close> replies with the rectangle under the keys \<open>X\<close>, \<open>Y\<close>,
  \<open>Width\<close>, \<open>Height\<close>, and \<open>WinMove\<close> succeeds and sets each coordinate by \<open>moved\<close>.
\<close>

definition honours_geometry :: "'b backend \<Rightarrow> ('b \<Rightarrow> int \<Rightarrow> geometry option) \<Rightarrow> bool" where
  "honours_geometry be geom =
     (\<forall>s n x y wd ht. geom s n = Some (x, y, wd, ht) \<longrightarrow>
        (\<forall>args. \<exists>r s'. be s ''DetectHiddenWindows'' args = (Inr r, s') \<and> geom s' = geom s) \<and>
        (\<forall>args. \<exists>r s'. be s ''SetWinDelay'' args = (Inr r, s') \<and> geom s' = geom s) \<and>
        (\<exists>d s'. be s ''WinGetPos'' [VStr (''ahk_id '' @ str_int n), VStr ''''] = (Inr (VDict d), s') \<and>
           map_of d ''X'' = Some (VInt x) \<and> map_of d ''Y'' = Some (VInt y) \<and>
           map_of d ''Width'' = Some (VInt wd) \<and> map_of d ''Height'' = Some (VInt ht) \<and>
           geom s' = geom s) \<and>
        (\<forall>a b c d. \<exists>r s'.
           be s ''WinMove'' [VStr (''ahk_id '' @ str_int n), VStr '''', a, b, c, d] = (Inr r, s') \<and>
           geom s' n = Some (moved a x, moved b y, moved c wd, moved d ht)))"

text \<open>
  A backend with one window, number \<open>7\<close>, whose state is that window's rectangle.
\<close>

definition desk_backend :: "geometry backend" where
  "desk_backend s cmd args =
     (if cmd = ''WinGetPos'' \<and> args = [VStr ''ahk_id 7'', VStr '''']
      then (case s of (x, y, wd, ht) \<Rightarrow>
              (Inr (VDict [(''X'', VInt x), (''Y'', VInt y), (''Width'', VInt wd), (''Height'', VInt ht)]), s))
      else if cmd = ''WinMove''
      then (case args of
              [VStr t, VStr tx, a, b, c, d] \<Rightarrow>
                (if t = ''ahk_id 7'' \<and> tx = ''''
                 then (case s of (x, y, wd, ht) \<Rightarrow>
                         (Inr (VStr ''''), (moved a x, moved b y, moved c wd, moved d ht)))
                 else (Inr (VStr ''''), s))
            | _ \<Rightarrow> (Inr (VStr ''''), s))
      else (Inr (VStr ''''), s))"

definition desk_geom :: "geometry \<Rightarrow> int \<Rightarrow> geometry option" where
  "desk_geom s n = (if n = 7 then Some s else None)"

definition desk_env :: "geometry env" where
  "desk_env =
     \<lparr> backend = desk_backend, set_key_delay = returnM (), recursion_limit = 8,
       tuple_hash = (\<lambda>t. 0) \<rparr>"

definition desk_world :: "geometry world" where
  "desk_world =
     \<lparr> backend_state = (100, 200, 640, 480), calls = [], heap = (\<lambda>p. Settings_defaults),
       next_addr = 1, current_settings = Some 0 \<rparr>"

section \<open>Basic facts\<close>

lemma bindM_returnM [simp]: "bindM (returnM x) f = f x"
  by (rule ext) (simp add: bindM_def returnM_def)

lemma bindM_raiseM [simp]: "bindM (raiseM e) f = raiseM e"
  by (rule ext) (simp add: bindM_def raiseM_def)

lemma catchM_returnM [simp]: "catchM (returnM x) h = returnM x"
  by (rule ext) (simp add: catchM_def returnM_def)

lemma catchM_raiseM [simp]: "catchM (raiseM e) h = h e"
  by (rule ext) (simp add: catchM_def raiseM_def)

lemma with_global_ahk_lock_id [simp]: "with_global_ahk_lock m = m"
  by (simp add: with_global_ahk_lock_def)

lemma Windows_filter_no_args [simp]: "Windows_filter self no_args = Inr self"
  by (simp add: Windows_filter_def no_args_def)

lemma filtering_no_args [simp]: "filtering func self no_args = func self"
  by (simp add: filtering_def)

lemma Windows_call_has_none [simp]:
  "has_none self \<Longrightarrow> Windows_call env self cmd args set_delay = returnM VNone"
  by (simp add: Windows_call_def)

lemma Window_of_zero [simp]: "Window_of (py_or VNone (VInt 0)) = returnM (Window 0)"
  by (simp add: Window_of_def py_or_def)

lemma returnM_apply: "returnM x w = (Inr x, w)"
  by (simp add: returnM_def)

lemma raiseM_apply: "raiseM e w = (Inl e, w)"
  by (simp add: raiseM_def)

lemma Window_of_VInt [simp]: "Window_of (VInt n) = returnM (Window n)"
  by (simp add: Window_of_def)

section \<open>Facts about the concrete instances\<close>

lemma set_key_delay_silent: "set_key_delay silent_env = returnM ()"
  by (simp add: silent_env_def)

lemma ahk_call_silent:
  "ahk_call silent_env cmd args w = (Inr (VInt 0), w\<lparr>calls := calls w @ [(cmd, args)]\<rparr>)"
  by (simp add: ahk_call_def silent_env_def silent_backend_def)

lemma ahk_call_timeout:
  "ahk_call timeout_env cmd args w = (Inr (VInt 1), w\<lparr>calls := calls w @ [(cmd, args)]\<rparr>)"
  by (simp add: ahk_call_def timeout_env_def silent_env_def timeout_backend_def)

lemma ahk_call_blank:
  "ahk_call blank_env cmd args w = (Inr (VStr ''''), w\<lparr>calls := calls w @ [(cmd, args)]\<rparr>)"
  by (simp add: ahk_call_def blank_env_def silent_env_def blank_backend_def)

lemma ahk_call_vanished:
  "ahk_call vanished_env cmd args w =
     (if cmd = ''ControlGet'' then Inl (Error (VInt 1)) else Inr (VInt 0),
      w\<lparr>calls := calls w @ [(cmd, args)]\<rparr>)"
  by (simp add: ahk_call_def vanished_env_def silent_env_def vanished_backend_def)

lemma str_int_9: "str_int 9 = ''9''"
  by (simp add: str_int_def str_nat.simps)

lemma str_int_m42: "str_int (- 42) = ''-42''"
  by (simp add: str_int_def str_nat.simps)

lemma str_int_7: "str_int 7 = ''7''"
  by (simp add: str_int_def str_nat.simps)

lemma optional_ms_tenth: "optional_ms (Some 0.1) = 100"
  by (simp add: optional_ms_def)

lemma spec_excluded_has_none: "has_none spec_excluded"
  by (simp add: has_none_def spec_excluded_def Windows_init_def)

lemma Windows_call_silent:
  "\<not> has_none F \<Longrightarrow> win_text F = UNSET \<Longrightarrow> exclude_text F = UNSET \<Longrightarrow>
   text_mode F = ''fast'' \<Longrightarrow> title_mode F = Val m \<Longrightarrow> m \<in> TITLE_MATCH_MODES \<Longrightarrow>
   Windows_call silent_env F cmd args False w =
     (Inr (VInt 0),
      w\<lparr>calls := calls w @
         [(''DetectHiddenWindows'', [VStr (if hidden_windows F then ''On'' else ''Off'')]),
          (''SetTitleMatchMode'',
             [if m = ''startswith'' then VInt 1 else if m = ''contains'' then VInt 2
              else if m = ''exact'' then VInt 3 else VStr ''regex'']),
          (''SetTitleMatchMode'', [VStr ''fast'']),
          (cmd, args)]\<rparr>)"
  by (auto simp: Windows_call_def set_title_match_mode_def bindM_def ahk_call_silent returnM_apply
      raiseM_apply TITLE_MATCH_MODES_def)

lemma set_win_delay_timeout:
  "current_settings w = Some p \<Longrightarrow> win_delay (heap w p) = Some 0.1 \<Longrightarrow>
   set_win_delay timeout_env w =
     (Inr (), w\<lparr>calls := calls w @ [(''SetWinDelay'', [VInt 100])]\<rparr>)"
  by (simp add: set_win_delay_def get_settings_def getattrM_def bindM_def ahk_call_timeout
      returnM_apply optional_ms_tenth)

section \<open>Refining a specification\<close>

lemma default2_UNSET: "default2 v d UNSET = spec_merge v d"
  by (cases v) (simp_all add: default2_def default3_def spec_merge_def)

lemma Windows_filter_merge:
  "Windows_filter F a =
     (if arg_match a \<noteq> UNSET \<and> \<not> in_title_match_modes (arg_match a) then Inl ValueError
      else Inr (F\<lparr>
        title := spec_merge (arg_title a) (title F),
        class_name := spec_merge (arg_class_name a) (class_name F),
        ident := spec_merge (arg_id a) (ident F),
        pid := spec_merge (arg_pid a) (pid F),
        exe := spec_merge (arg_exe a) (exe F),
        win_text := spec_merge (arg_text a) (win_text F),
        title_mode := spec_merge (arg_match a) (title_mode F)\<rparr>))"
  by (simp add: Windows_filter_def default2_UNSET spec_merge_def)

lemma Windows_exclude_merge:
  "Windows_exclude F t x =
     F\<lparr>exclude_title := spec_merge t (exclude_title F),
       exclude_text := spec_merge x (exclude_text F)\<rparr>"
  by (simp add: Windows_exclude_def default2_UNSET spec_merge_def)

text \<open>
  Claim C3. \<open>F.filter()\<close> with every parameter left at \<open>UNSET\<close> is \<open>F\<close> itself, and so
  is \<open>F.exclude()\<close>. Every refining call returns the receiver with exactly the named
  fields replaced: \<open>filter\<close> and \<open>exclude\<close> merge each argument by the specification's
  rule (\<open>spec_merge\<close>: an \<open>UNSET\<close> argument keeps the receiver's value), the
  hidden-window, hidden-text and text-speed calls set their one field. The receiver is a
  value of a frozen dataclass: the calls are functions of it and have no world to change.
\<close>

theorem refining_merges_non_unset_arguments:
  "Windows_filter F no_args = Inr F \<and>
   Windows_exclude F UNSET UNSET = F \<and>
   Windows_filter F a =
     (if arg_match a \<noteq> UNSET \<and> \<not> in_title_match_modes (arg_match a) then Inl ValueError
      else Inr (F\<lparr>
        title := spec_merge (arg_title a) (title F),
        class_name := spec_merge (arg_class_name a) (class_name F),
        ident := spec_merge (arg_id a) (ident F),
        pid := spec_merge (arg_pid a) (pid F),
        exe := spec_merge (arg_exe a) (exe F),
        win_text := spec_merge (arg_text a) (win_text F),
        title_mode := spec_merge (arg_match a) (title_mode F)\<rparr>)) \<and>
   Windows_exclude F t x =
     F\<lparr>exclude_title := spec_merge t (exclude_title F),
       exclude_text := spec_merge x (exclude_text F)\<rparr> \<and>
   Windows_include_hidden_windows F b = F\<lparr>hidden_windows := b\<rparr> \<and>
   Windows_exclude_hidden_windows F = F\<lparr>hidden_windows := False\<rparr> \<and>
   Windows_include_hidden_text F b = F\<lparr>hidden_text := b\<rparr> \<and>
   Windows_exclude_hidden_text F = F\<lparr>hidden_text := False\<rparr> \<and>
   Windows_match_text_slow F b = F\<lparr>text_mode := (if b then ''slow'' else ''fast'')\<rparr>"
proof -
  have "Windows_exclude F UNSET UNSET = F"
    by (simp add: Windows_exclude_def)
  moreover have "Windows_match_text_slow F b = F\<lparr>text_mode := (if b then ''slow'' else ''fast'')\<rparr>"
    by (simp add: Windows_match_text_slow_def)
  ultimately show ?thesis
    using Windows_filter_merge [of F a] Windows_exclude_merge [of F t x]
    by (simp add: Windows_include_hidden_windows_def Windows_exclude_hidden_windows_def
        Windows_include_hidden_text_def Windows_exclude_hidden_text_def)
qed

theorem refining_witness:
  "Windows_filter spec_notepad no_args = Inr spec_notepad \<and>
   Windows_filter spec_notepad (args_title ''Readme'') =
     Inr (spec_notepad\<lparr>title := Val ''Readme''\<rparr>) \<and>
   class_name (spec_notepad\<lparr>title := Val ''Readme''\<rparr>) = Val ''Notepad'' \<and>
   Windows_exclude spec_notepad UNSET (Val ''draft'') =
     spec_notepad\<lparr>exclude_text := Val ''draft''\<rparr>"
  using refining_merges_non_unset_arguments
    [of spec_notepad "args_title ''Readme''" UNSET "Val ''draft''" True]
  by (simp add: spec_notepad_def args_title_def no_args_def Windows_init_def spec_merge_def
      in_title_match_modes_def)

text \<open>
  Claim C4. A \<open>match\<close> argument that is given and is not one of \<open>startswith\<close>,
  \<open>contains\<close>, \<open>exact\<close>, \<open>regex\<close> makes \<open>filter\<close> raise \<open>ValueError\<close>; a method
  decorated with \<open>filtering\<close> raises it before its body runs, with the world (the log
  of backend calls included) as it was. With \<open>match\<close> omitted or valid, \<open>filter\<close>
  returns a specification and the method's body runs on it.
\<close>

theorem invalid_match_raises_before_any_call:
  "(arg_match a \<noteq> UNSET \<and> arg_match a \<notin> Val ` TITLE_MATCH_MODES \<longrightarrow>
      Windows_filter F a = Inl ValueError \<and>
      filtering func F a w = (Inl ValueError, w)) \<and>
   (arg_match a = UNSET \<or> arg_match a \<in> Val ` TITLE_MATCH_MODES \<longrightarrow>
      (\<exists>F'. Windows_filter F a = Inr F' \<and> filtering func F a w = func F' w))"
proof -
  have m: "in_title_match_modes (arg_match a) = (arg_match a \<in> Val ` TITLE_MATCH_MODES)"
    by (cases "arg_match a") (auto simp: in_title_match_modes_def)
  show ?thesis
    unfolding filtering_def Windows_filter_merge m
    by (auto simp: raiseM_def)
qed

theorem invalid_match_witness:
  "Windows_exist silent_env spec_notepad (args_match (Val ''fuzzy'')) world0 =
     (Inl ValueError, world0) \<and>
   Windows_exist silent_env spec_notepad (args_match PyNone) world0 = (Inl ValueError, world0) \<and>
   Windows_filter spec_notepad (args_match (Val ''regex'')) =
     Inr (spec_notepad\<lparr>title_mode := Val ''regex''\<rparr>)"
proof -
  let ?f = "\<lambda>self. bindM (Windows_call silent_env self ''WinExist'' (args4 (Windows_query self)) False)
      (\<lambda>r. Window_of (py_or r (VInt 0)))"
  have v: "Val ''fuzzy'' \<notin> Val ` TITLE_MATCH_MODES" "PyNone \<notin> Val ` TITLE_MATCH_MODES"
    by (auto simp: TITLE_MATCH_MODES_def)
  have "Windows_exist silent_env spec_notepad (args_match (Val ''fuzzy'')) world0 =
      (Inl ValueError, world0)"
    using invalid_match_raises_before_any_call [of "args_match (Val ''fuzzy'')" spec_notepad ?f world0] v
    by (simp add: Windows_exist_def args_match_def)
  moreover have "Windows_exist silent_env spec_notepad (args_match PyNone) world0 =
      (Inl ValueError, world0)"
    using invalid_match_raises_before_any_call [of "args_match PyNone" spec_notepad ?f world0] v
    by (simp add: Windows_exist_def args_match_def)
  moreover have "Windows_filter spec_notepad (args_match (Val ''regex'')) =
      Inr (spec_notepad\<lparr>title_mode := Val ''regex''\<rparr>)"
    by (simp add: Windows_filter_merge args_match_def no_args_def spec_merge_def
        in_title_match_modes_def TITLE_MATCH_MODES_def)
  ultimately show ?thesis by simp
qed

section \<open>A specification with an excluded field\<close>

lemma Windows__wait_has_none:
  "has_none self \<Longrightarrow> Windows__wait env self cmd timeout = returnM (Window 0)"
  by (simp add: Windows__wait_def)

lemma Windows_exist_has_none:
  "has_none self \<Longrightarrow> Windows_exist env self no_args = returnM (Window 0)"
  by (simp add: Windows_exist_def)

lemma Windows__group_action_has_none:
  "has_none self \<Longrightarrow>
   Windows__group_action env self cmd timeout =
     returnM (if timeout \<noteq> VNone then Some True else None)"
  by (auto simp: Windows__group_action_def Windows_exist_has_none handle_bool_def Let_def
      Windows_eq_def astuple_def Windows_init_def has_none_def)

lemma excluded_queries:
  "has_none self \<Longrightarrow>
     Windows_exist env self no_args = returnM (Window 0) \<and>
     Windows_first env self no_args = returnM (Window 0) \<and>
     Windows_last env self no_args = returnM (Window 0) \<and>
     Windows_get_active env self no_args = returnM (Window 0) \<and>
     Windows_iter env self = returnM [] \<and>
     Windows_len env self = returnM (VInt 0)"
  by (simp add: Windows_exist_has_none Windows_first_def Windows_last_def Windows_get_active_def
      Windows_iter_def Windows_len_def Let_def py_or_def)

lemma excluded_waits:
  "has_none self \<Longrightarrow>
     Windows_wait env self no_args timeout = returnM (Window 0) \<and>
     Windows_wait_active env self no_args timeout = returnM (Window 0) \<and>
     Windows_wait_inactive env self no_args timeout = returnM (Window 0) \<and>
     Windows_wait_close env self no_args timeout = returnM True"
  by (simp add: Windows_wait_def Windows_wait_active_def Windows_wait_inactive_def
      Windows_wait_close_def Windows__wait_has_none)

lemma excluded_actions:
  "has_none self \<Longrightarrow>
     Windows_activate env self no_args timeout =
       returnM (if timeout \<noteq> VNone then Some (Window 0) else None) \<and>
     Windows_timed_action cmd env self no_args timeout = returnM () \<and>
     Windows_delayed_action cmd env self no_args = returnM () \<and>
     Windows_set subcmd value env self no_args = returnM ()"
  by (simp add: Windows_activate_def Windows_timed_action_def Windows_delayed_action_def
      Windows_set_def Windows_wait_active_def Windows__wait_has_none)

lemma excluded_groups:
  "has_none self \<Longrightarrow>
     Windows_close_all env self no_args timeout =
       returnM (if timeout \<noteq> VNone then Some True else None) \<and>
     Windows_kill_all env self no_args timeout =
       returnM (if timeout \<noteq> VNone then Some True else None) \<and>
     Windows_hide_all env self no_args = returnM None \<and>
     Windows_maximize_all env self no_args = returnM None \<and>
     Windows_minimize_all env self no_args = returnM None \<and>
     Windows_restore_all env self no_args = returnM () \<and>
     Windows_show_all env self no_args = returnM ()"
  by (simp add: Windows_close_all_def Windows_kill_all_def Windows_hide_all_def
      Windows_maximize_all_def Windows_minimize_all_def Windows_restore_all_def
      Windows_show_all_def Windows__group_action_has_none)

lemma excluded_send:
  "has_none self \<Longrightarrow>
     Windows_send env self keys no_args = bindM (set_key_delay env) (\<lambda>_. returnM ())"
  by (simp add: Windows_send_def Let_def)

text \<open>
  Claim C2, as amended. With \<open>None\<close> in one of \<open>title\<close>, \<open>class_name\<close>, \<open>id\<close>,
  \<open>pid\<close>, \<open>exe\<close>, \<open>text\<close>, every query and action called on the specification
  without refining arguments leaves the world as it was (no backend command is logged)
  and returns its no-match result: \<open>Window(0)\<close> for \<open>exist\<close>, \<open>first\<close>, \<open>last\<close>,
  \<open>get_active\<close>, \<open>wait\<close>, \<open>wait_active\<close> and \<open>wait_inactive\<close>; the empty sequence
  for iteration; \<open>0\<close> for \<open>len\<close>; \<open>True\<close> for \<open>wait_close\<close>; \<open>None\<close> for the
  actions (\<open>Window(0)\<close> for \<open>activate\<close> with a timeout, \<open>True\<close> for \<open>close_all\<close> and
  \<open>kill_all\<close> with a timeout). \<open>send\<close> runs the key-delay helper and nothing else.
  \<open>Windows_timed_action\<close> is \<open>close\<close> and \<open>kill\<close>, \<open>Windows_delayed_action\<close> is
  \<open>hide\<close>, \<open>maximize\<close>, \<open>minimize\<close>, \<open>restore\<close> and \<open>show\<close>, \<open>Windows_set\<close> is
  the \<open>WinSet\<close> family from \<open>pin_to_top\<close> to \<open>redraw\<close>.
\<close>

theorem excluded_spec_matches_nothing:
  "has_none self \<Longrightarrow>
     Windows_exist env self no_args w = (Inr (Window 0), w) \<and>
     Windows_first env self no_args w = (Inr (Window 0), w) \<and>
     Windows_last env self no_args w = (Inr (Window 0), w) \<and>
     Windows_get_active env self no_args w = (Inr (Window 0), w) \<and>
     Windows_iter env self w = (Inr [], w) \<and>
     Windows_len env self w = (Inr (VInt 0), w) \<and>
     Windows_wait env self no_args timeout w = (Inr (Window 0), w) \<and>
     Windows_wait_active env self no_args timeout w = (Inr (Window 0), w) \<and>
     Windows_wait_inactive env self no_args timeout w = (Inr (Window 0), w) \<and>
     Windows_wait_close env self no_args timeout w = (Inr True, w) \<and>
     Windows_activate env self no_args timeout w =
       (Inr (if timeout \<noteq> VNone then Some (Window 0) else None), w) \<and>
     Windows_timed_action cmd env self no_args timeout w = (Inr (), w) \<and>
     Windows_delayed_action cmd env self no_args w = (Inr (), w) \<and>
     Windows_set subcmd value env self no_args w = (Inr (), w) \<and>
     Windows_close_all env self no_args timeout w =
       (Inr (if timeout \<noteq> VNone then Some True else None), w) \<and>
     Windows_kill_all env self no_args timeout w =
       (Inr (if timeout \<noteq> VNone then Some True else None), w) \<and>
     Windows_hide_all env self no_args w = (Inr None, w) \<and>
     Windows_maximize_all env self no_args w = (Inr None, w) \<and>
     Windows_minimize_all env self no_args w = (Inr None, w) \<and>
     Windows_restore_all env self no_args w = (Inr (), w) \<and>
     Windows_show_all env self no_args w = (Inr (), w) \<and>
     Windows_send env self keys no_args w = bindM (set_key_delay env) (\<lambda>_. returnM ()) w"
  by (simp only: excluded_queries excluded_waits excluded_actions excluded_groups excluded_send
      returnM_apply simp_thms)

lemma wait_close_timed_out: "fst (Windows_wait_close timeout_env Windows_init no_args (VInt 1) world0) = Inr False"
  by (simp add: Windows_wait_close_def Windows_call_def has_none_def Windows_init_def
      set_title_match_mode_def set_win_delay_def get_settings_def getattrM_def world0_def
      bindM_def returnM_apply ahk_call_timeout)

text \<open>
  Claim C2, as stated, gives the wait family its timeout value on an excluded
  specification. \<open>wait_close\<close> returns \<open>True\<close> there, while after a timeout it returns
  \<open>False\<close>.
\<close>

theorem excluded_wait_close_counterexample:
  "has_none spec_excluded \<and>
   Windows_wait_close timeout_env spec_excluded no_args (VInt 1) world0 = (Inr True, world0) \<and>
   fst (Windows_wait_close timeout_env Windows_init no_args (VInt 1) world0) = Inr False"
  using spec_excluded_has_none wait_close_timed_out by (simp add: excluded_waits returnM_apply)

text \<open>
  The amended claim at the specification whose title is \<open>None\<close>.
\<close>

theorem excluded_spec_witness:
  "has_none spec_excluded \<and>
   Windows_exist silent_env spec_excluded no_args world0 = (Inr (Window 0), world0) \<and>
   Windows_len silent_env spec_excluded world0 = (Inr (VInt 0), world0) \<and>
   Windows_wait_close silent_env spec_excluded no_args (VInt 1) world0 = (Inr True, world0) \<and>
   Windows_send silent_env spec_excluded ''abc'' no_args world0 = (Inr (), world0)"
  using spec_excluded_has_none excluded_spec_matches_nothing [OF spec_excluded_has_none, of silent_env world0 "VInt 1" "''WinClose''" "''Top''" "''''" "''abc''"]
  by (simp add: set_key_delay_silent returnM_apply)

section \<open>The active window\<close>

lemma str_field_empty: "str_field (\<lambda>s. s) v = [] \<longleftrightarrow> v = Val []"
  by (cases v) (simp_all add: str_field_def)

lemma default3_str_empty:
  "default3 (str_field (\<lambda>s. s)) v [] UNSET = [] \<longleftrightarrow> (v = UNSET \<or> v = Val [])"
  by (simp add: default3_def str_field_empty)

lemma include_blank:
  "fst (Windows_include F) = [] \<longleftrightarrow>
     ((title F = UNSET \<or> title F = Val []) \<and> class_name F = UNSET \<and> ident F = UNSET \<and>
      pid F = UNSET \<and> exe F = UNSET)"
  by (auto simp: Windows_include_def Let_def str_field_empty)

lemma query_blank_iff:
  "Windows_query F = ('''', '''', '''', '''') \<longleftrightarrow> query_is_blank F"
  using include_blank [of F]
  by (auto simp: Windows_query_def query_is_blank_def Windows_include_def Windows_exclude_query_def
      default3_str_empty Let_def split: prod.splits)

lemma Windows_get_active_query:
  "Windows_get_active env F no_args =
     bindM (Windows_call env F ''WinActive''
              (args4 (if query_is_blank F then (''A'', '''', '''', '''') else Windows_query F)) False)
       (\<lambda>r. Window_of (py_or r (VInt 0)))"
  by (simp add: Windows_get_active_def Let_def query_blank_iff)

text \<open>
  Claim C7, as amended. \<open>get_active\<close> asks the backend for the window \<open>A\<close> (the
  focused one) exactly when the serialised query is four empty strings, which is when
  \<open>title\<close>, \<open>text\<close>, \<open>exclude_title\<close> and \<open>exclude_text\<close> are each \<open>UNSET\<close> or the
  empty string and \<open>class_name\<close>, \<open>id\<close>, \<open>pid\<close>, \<open>exe\<close> are \<open>UNSET\<close>; every fully
  unconstrained specification is among them. In every other case it asks for the active
  window matching the serialised query. A reply that is not truthy gives \<open>Window(0)\<close>.
\<close>

theorem get_active_blank_query_means_focused_window:
  "(Windows_query F = ('''', '''', '''', '''') \<longleftrightarrow> query_is_blank F) \<and>
   (fully_unconstrained F \<longrightarrow> query_is_blank F) \<and>
   Windows_get_active env F no_args =
     bindM (Windows_call env F ''WinActive''
              (args4 (if query_is_blank F then (''A'', '''', '''', '''') else Windows_query F)) False)
       (\<lambda>r. Window_of (py_or r (VInt 0))) \<and>
   (Windows_call env F ''WinActive''
      (args4 (if query_is_blank F then (''A'', '''', '''', '''') else Windows_query F)) False w =
      (Inr r, w') \<and> \<not> truthy r \<longrightarrow>
    Windows_get_active env F no_args w = (Inr (Window 0), w'))"
proof -
  have "fully_unconstrained F \<longrightarrow> query_is_blank F"
    by (simp add: fully_unconstrained_def query_is_blank_def)
  moreover have "Windows_call env F ''WinActive''
      (args4 (if query_is_blank F then (''A'', '''', '''', '''') else Windows_query F)) False w =
      (Inr r, w') \<and> \<not> truthy r \<longrightarrow>
    Windows_get_active env F no_args w = (Inr (Window 0), w')"
    by (simp add: Windows_get_active_query bindM_def py_or_def returnM_apply)
  ultimately show ?thesis
    using query_blank_iff [of F] Windows_get_active_query [of env F] by simp
qed

text \<open>
  Claim C7, as stated, limits the special case to fully unconstrained specifications.
  A specification that asks for the exact title \<open>""\<close> is constrained, and
  \<open>get_active\<close> sends \<open>A\<close> for it.
\<close>

theorem empty_title_counterexample:
  "title spec_empty_title \<noteq> UNSET \<and> \<not> fully_unconstrained spec_empty_title \<and>
   Windows_get_active silent_env spec_empty_title no_args world0 =
     (Inr (Window 0),
      world0\<lparr>calls :=
        [(''DetectHiddenWindows'', [VStr ''Off'']),
         (''SetTitleMatchMode'', [VInt 3]),
         (''SetTitleMatchMode'', [VStr ''fast'']),
         (''WinActive'', [VStr ''A'', VStr '''', VStr '''', VStr ''''])]\<rparr>)"
proof -
  have b: "query_is_blank spec_empty_title"
    by (simp add: query_is_blank_def spec_empty_title_def Windows_init_def)
  have c: "Windows_call silent_env spec_empty_title ''WinActive''
      [VStr ''A'', VStr '''', VStr '''', VStr ''''] False world0 =
     (Inr (VInt 0),
      world0\<lparr>calls :=
        [(''DetectHiddenWindows'', [VStr ''Off'']),
         (''SetTitleMatchMode'', [VInt 3]),
         (''SetTitleMatchMode'', [VStr ''fast'']),
         (''WinActive'', [VStr ''A'', VStr '''', VStr '''', VStr ''''])]\<rparr>)"
    by (subst Windows_call_silent [where m = "''exact''"])
       (simp_all add: spec_empty_title_def Windows_init_def has_none_def TITLE_MATCH_MODES_def
          world0_def)
  show ?thesis
    using b c
    by (simp add: Windows_get_active_query args4_def bindM_def py_or_def returnM_apply
        fully_unconstrained_def spec_empty_title_def Windows_init_def)
qed

text \<open>
  The amended claim at \<open>Windows()\<close> and at a Notepad specification.
\<close>

theorem get_active_witness:
  "fully_unconstrained Windows_init \<and> \<not> query_is_blank spec_notepad \<and>
   Windows_get_active silent_env Windows_init no_args world0 =
     (Inr (Window 0),
      world0\<lparr>calls :=
        [(''DetectHiddenWindows'', [VStr ''Off'']),
         (''SetTitleMatchMode'', [VInt 1]),
         (''SetTitleMatchMode'', [VStr ''fast'']),
         (''WinActive'', [VStr ''A'', VStr '''', VStr '''', VStr ''''])]\<rparr>) \<and>
   Windows_get_active silent_env spec_notepad no_args world0 =
     (Inr (Window 0),
      world0\<lparr>calls :=
        [(''DetectHiddenWindows'', [VStr ''Off'']),
         (''SetTitleMatchMode'', [VInt 1]),
         (''SetTitleMatchMode'', [VStr ''fast'']),
         (''WinActive'', [VStr ''ahk_class Notepad'', VStr '''', VStr ''Untitled'', VStr ''''])]\<rparr>)"
proof -
  let ?cfg = "[(''DetectHiddenWindows'', [VStr ''Off'']), (''SetTitleMatchMode'', [VInt 1]),
              (''SetTitleMatchMode'', [VStr ''fast''])]"
  have u: "fully_unconstrained Windows_init"
    by (simp add: fully_unconstrained_def Windows_init_def)
  have n: "\<not> query_is_blank spec_notepad"
    by (simp add: query_is_blank_def spec_notepad_def Windows_init_def)
  have q: "Windows_query spec_notepad = (''ahk_class Notepad'', '''', ''Untitled'', '''')"
    by (simp add: Windows_query_def Windows_include_def Windows_exclude_query_def spec_notepad_def
        Windows_init_def default3_def str_field_def)
  have c1: "Windows_call silent_env Windows_init ''WinActive''
      (args4 (''A'', '''', '''', '''')) False world0 =
     (Inr (VInt 0), world0\<lparr>calls := ?cfg @ [(''WinActive'', args4 (''A'', '''', '''', ''''))]\<rparr>)"
    by (subst Windows_call_silent [where m = "''startswith''"])
       (simp_all add: Windows_init_def has_none_def TITLE_MATCH_MODES_def world0_def)
  have c2: "Windows_call silent_env spec_notepad ''WinActive''
      (args4 (''ahk_class Notepad'', '''', ''Untitled'', '''')) False world0 =
     (Inr (VInt 0), world0\<lparr>calls := ?cfg @
        [(''WinActive'', args4 (''ahk_class Notepad'', '''', ''Untitled'', ''''))]\<rparr>)"
    by (subst Windows_call_silent [where m = "''startswith''"])
       (simp_all add: spec_notepad_def Windows_init_def has_none_def TITLE_MATCH_MODES_def world0_def)
  have b1: "query_is_blank Windows_init"
    using get_active_blank_query_means_focused_window [of Windows_init] u by blast
  have r1: "Windows_get_active silent_env Windows_init no_args world0 =
     (Inr (Window 0), world0\<lparr>calls := ?cfg @ [(''WinActive'', args4 (''A'', '''', '''', ''''))]\<rparr>)"
    by (rule get_active_blank_query_means_focused_window
          [where r = "VInt 0", THEN conjunct2, THEN conjunct2, THEN conjunct2, rule_format])
       (simp add: b1 c1)
  have r2: "Windows_get_active silent_env spec_notepad no_args world0 =
     (Inr (Window 0), world0\<lparr>calls := ?cfg @
        [(''WinActive'', args4 (''ahk_class Notepad'', '''', ''Untitled'', ''''))]\<rparr>)"
    by (rule get_active_blank_query_means_focused_window
          [where r = "VInt 0", THEN conjunct2, THEN conjunct2, THEN conjunct2, rule_format])
       (simp add: n c2 q)
  show ?thesis
    using u n r1 r2 by (simp add: args4_def)
qed

section \<open>Group names\<close>

lemma astuple_inject: "astuple F1 = astuple F2 \<Longrightarrow> F1 = F2"
  by (cases F1, cases F2) (simp add: astuple_def)

text \<open>
  Claim C8. Two specifications that compare equal (\<open>__eq__\<close> of the dataclass: equal
  field tuples) derive the same group name, which is a function of the field tuple alone:
  the decimal text of its hash with \<open>-\<close> replaced by \<open>m\<close>. Each of the seven group
  actions, and \<open>_group_action\<close> under them, is then the same action for both.
\<close>

theorem equal_specs_same_group_name:
  "Windows_eq F1 F2 \<Longrightarrow>
     group_name env F1 = group_name env F2 \<and>
     group_name env F1 =
       map (\<lambda>c. if c = CHR ''-'' then CHR ''m'' else c) (str_int (tuple_hash env (astuple F1))) \<and>
     Windows__group_action env F1 cmd timeout = Windows__group_action env F2 cmd timeout \<and>
     Windows_close_all env F1 no_args timeout = Windows_close_all env F2 no_args timeout \<and>
     Windows_kill_all env F1 no_args timeout = Windows_kill_all env F2 no_args timeout \<and>
     Windows_maximize_all env F1 no_args = Windows_maximize_all env F2 no_args \<and>
     Windows_minimize_all env F1 no_args = Windows_minimize_all env F2 no_args \<and>
     Windows_hide_all env F1 no_args = Windows_hide_all env F2 no_args \<and>
     Windows_show_all env F1 no_args = Windows_show_all env F2 no_args \<and>
     Windows_restore_all env F1 no_args = Windows_restore_all env F2 no_args"
proof -
  assume "Windows_eq F1 F2"
  then have "F1 = F2"
    by (simp add: Windows_eq_def astuple_inject)
  then show ?thesis
    by (simp add: group_name_def Windows_hash_def)
qed

lemma group_name_silent: "group_name silent_env F = ''m42''"
  by (simp add: group_name_def Windows_hash_def silent_env_def str_int_m42)

lemma close_all_calls:
  "Windows_close_all silent_env spec_notepad no_args VNone world0 =
     (Inr None,
      world0\<lparr>calls :=
        [(''DetectHiddenWindows'', [VStr ''Off'']),
         (''SetTitleMatchMode'', [VInt 1]),
         (''SetTitleMatchMode'', [VStr ''fast'']),
         (''GroupAdd'', [VStr ''m42'', VStr ''ahk_class Notepad'', VStr '''', VStr '''',
                         VStr ''Untitled'', VStr '''']),
         (''DetectHiddenWindows'', [VStr ''Off'']),
         (''SetTitleMatchMode'', [VInt 1]),
         (''SetTitleMatchMode'', [VStr ''fast'']),
         (''SetWinDelay'', [VInt 100]),
         (''WinClose'', [VStr ''ahk_group m42'', VStr '''', VNone])]\<rparr>)"
  by (simp add: Windows_close_all_def Windows__group_action_def Windows_eq_def astuple_def Let_def
      group_name_silent Windows_call_def has_none_def set_title_match_mode_def
      set_win_delay_def get_settings_def getattrM_def bindM_def ahk_call_silent returnM_apply
      Windows_include_def Windows_exclude_query_def args2_def default3_def str_field_def
      spec_notepad_def Windows_init_def world0_def Settings_defaults_def optional_ms_tenth)

text \<open>
  Two routes to the same Notepad specification, their group name under a hash that is
  negative, and the backend calls of \<open>close_all\<close> that carry the name.
\<close>

theorem equal_specs_witness:
  "Windows_eq spec_notepad spec_notepad_again \<and>
   group_name silent_env spec_notepad = ''m42'' \<and>
   group_name silent_env spec_notepad_again = ''m42'' \<and>
   Windows_close_all silent_env spec_notepad_again no_args VNone world0 =
     (Inr None,
      world0\<lparr>calls :=
        [(''DetectHiddenWindows'', [VStr ''Off'']),
         (''SetTitleMatchMode'', [VInt 1]),
         (''SetTitleMatchMode'', [VStr ''fast'']),
         (''GroupAdd'', [VStr ''m42'', VStr ''ahk_class Notepad'', VStr '''', VStr '''',
                         VStr ''Untitled'', VStr '''']),
         (''DetectHiddenWindows'', [VStr ''Off'']),
         (''SetTitleMatchMode'', [VInt 1]),
         (''SetTitleMatchMode'', [VStr ''fast'']),
         (''SetWinDelay'', [VInt 100]),
         (''WinClose'', [VStr ''ahk_group m42'', VStr '''', VNone])]\<rparr>)"
proof -
  have e: "Windows_eq spec_notepad spec_notepad_again"
    by (simp add: Windows_eq_def astuple_def spec_notepad_def spec_notepad_again_def
        Windows_exclude_def Windows_init_def default2_def default3_def)
  have h: "tuple_hash silent_env (astuple spec_notepad) = - 42"
    by (simp add: silent_env_def)
  note g = equal_specs_same_group_name [OF e, of silent_env "''WinClose''" VNone]
  have g1: "group_name silent_env spec_notepad = group_name silent_env spec_notepad_again"
    by (rule g [THEN conjunct1])
  have g2: "group_name silent_env spec_notepad = ''m42''"
    by (simp add: g [THEN conjunct2, THEN conjunct1] h str_int_m42)
  have g3: "Windows_close_all silent_env spec_notepad no_args VNone =
      Windows_close_all silent_env spec_notepad_again no_args VNone"
    by (rule g [THEN conjunct2, THEN conjunct2, THEN conjunct2, THEN conjunct1])
  show ?thesis
    using e g1 [symmetric] g2 close_all_calls by (simp add: g3 [symmetric])
qed

section \<open>A handle whose style cannot be read\<close>

lemma WindowHandle__call_zero:
  "handle_id self = 0 \<Longrightarrow>
   WindowHandle__call env self cmd args hidden_windows' title_mode' set_delay = returnM VNone"
  by (simp add: WindowHandle__call_def)

lemma Control__call_depth_zero:
  "handle_id self = 0 \<Longrightarrow>
   Control__call_depth (Suc d) env self cmd args hidden_windows' title_mode' set_delay =
     returnM VNone"
  by (simp add: WindowHandle__call_zero)

lemma handle__call_zero:
  "handle_id self = 0 \<Longrightarrow> 0 < recursion_limit env \<Longrightarrow>
   handle__call env self cmd args hidden_windows' title_mode' set_delay = returnM VNone"
  by (cases "recursion_limit env"; cases self)
     (simp_all add: handle__call_def WindowHandle__call_zero Control__call_depth_zero)

lemma BaseWindow_style_zero:
  "handle_id self = 0 \<Longrightarrow> 0 < recursion_limit env \<Longrightarrow> BaseWindow_style env self = returnM None"
  by (cases self)
     (simp_all add: BaseWindow_style_def handle__get_def Window__get_def Control__get_def
        handle__call_zero py_eq_str_def)

text \<open>
  Claim C10. When the style read of a handle yields no value, \<open>is_enabled\<close> returns
  \<open>None\<close> and \<open>is_visible\<close> returns \<open>False\<close>, both in the world the style read left.
  The style read yields no value for the invalid handle, without any backend call.
\<close>

theorem missing_style_enabled_none_visible_false:
  "(BaseWindow_style env self w = (Inr None, w') \<longrightarrow>
      BaseWindow_is_enabled env self w = (Inr None, w') \<and>
      BaseWindow_is_visible env self w = (Inr False, w')) \<and>
   (handle_id self = 0 \<and> 0 < recursion_limit env \<longrightarrow>
      BaseWindow_style env self w = (Inr None, w))"
  by (simp add: BaseWindow_is_enabled_def BaseWindow_is_visible_def bindM_def
      BaseWindow_style_zero returnM_apply)

lemma style_vanished_control:
  "BaseWindow_style vanished_env (Control 9) world0 =
     (Inr None,
      world0\<lparr>calls := [(''DetectHiddenWindows'', [VStr ''On'']),
                       (''ControlGet'', [VStr ''Style'', VStr '''', VStr '''', VStr ''ahk_id 9'', VStr '''']),
                       (''DetectHiddenWindows'', [VStr ''On'']),
                       (''WinExist'', [VStr ''ahk_id 9'', VStr ''''])]\<rparr>)"
proof -
  have r: "recursion_limit vanished_env = 8"
    by (simp add: vanished_env_def silent_env_def)
  show ?thesis
    by (simp add: BaseWindow_style_def handle__get_def Control__get_def handle__call_def r
        WindowHandle__call_def bindM_def catchM_def ahk_call_vanished py_eq_int_def
        returnM_apply raiseM_apply handle_include_def args2_def str_int_9 world0_def
        eval_nat_numeral)
qed

text \<open>
  A window that is gone (the backend answers with the empty string), a control that is
  gone (the command fails, and \<open>Control._call\<close> finds that the control does not exist),
  and the invalid control handle.
\<close>

theorem missing_style_witness:
  "BaseWindow_is_enabled blank_env (Window 7) world0 =
     (Inr None,
      world0\<lparr>calls := [(''DetectHiddenWindows'', [VStr ''On'']),
                       (''WinGet'', [VStr ''Style'', VStr ''ahk_id 7'', VStr ''''])]\<rparr>) \<and>
   BaseWindow_is_visible blank_env (Window 7) world0 =
     (Inr False,
      world0\<lparr>calls := [(''DetectHiddenWindows'', [VStr ''On'']),
                       (''WinGet'', [VStr ''Style'', VStr ''ahk_id 7'', VStr ''''])]\<rparr>) \<and>
   BaseWindow_is_enabled vanished_env (Control 9) world0 =
     (Inr None,
      world0\<lparr>calls := [(''DetectHiddenWindows'', [VStr ''On'']),
                       (''ControlGet'', [VStr ''Style'', VStr '''', VStr '''', VStr ''ahk_id 9'', VStr '''']),
                       (''DetectHiddenWindows'', [VStr ''On'']),
                       (''WinExist'', [VStr ''ahk_id 9'', VStr ''''])]\<rparr>) \<and>
   BaseWindow_is_visible vanished_env (Control 9) world0 =
     (Inr False,
      world0\<lparr>calls := [(''DetectHiddenWindows'', [VStr ''On'']),
                       (''ControlGet'', [VStr ''Style'', VStr '''', VStr '''', VStr ''ahk_id 9'', VStr '''']),
                       (''DetectHiddenWindows'', [VStr ''On'']),
                       (''WinExist'', [VStr ''ahk_id 9'', VStr ''''])]\<rparr>) \<and>
   BaseWindow_is_enabled blank_env (Control 0) world0 = (Inr None, world0) \<and>
   BaseWindow_is_visible blank_env (Control 0) world0 = (Inr False, world0)"
proof -
  let ?w = "world0\<lparr>calls := [(''DetectHiddenWindows'', [VStr ''On'']),
                       (''WinGet'', [VStr ''Style'', VStr ''ahk_id 7'', VStr ''''])]\<rparr>"
  let ?v = "world0\<lparr>calls := [(''DetectHiddenWindows'', [VStr ''On'']),
                       (''ControlGet'', [VStr ''Style'', VStr '''', VStr '''', VStr ''ahk_id 9'', VStr '''']),
                       (''DetectHiddenWindows'', [VStr ''On'']),
                       (''WinExist'', [VStr ''ahk_id 9'', VStr ''''])]\<rparr>"
  have s7: "BaseWindow_style blank_env (Window 7) world0 = (Inr None, ?w)"
    by (simp add: BaseWindow_style_def handle__get_def Window__get_def handle__call_def
        WindowHandle__call_def bindM_def ahk_call_blank py_eq_str_def returnM_apply
        handle_include_def args2_def str_int_7 world0_def)
  have r: "0 < recursion_limit blank_env"
    by (simp add: blank_env_def silent_env_def)
  have s0: "BaseWindow_style blank_env (Control 0) world0 = (Inr None, world0)"
    using missing_style_enabled_none_visible_false [of blank_env "Control 0" world0 world0] r
    by simp
  show ?thesis
    using missing_style_enabled_none_visible_false [of blank_env "Window 7" world0 ?w] s7
      missing_style_enabled_none_visible_false [of vanished_env "Control 9" world0 ?v]
      style_vanished_control
      missing_style_enabled_none_visible_false [of blank_env "Control 0" world0 world0] s0
    by simp
qed

section \<open>Timeouts\<close>

lemma Windows__wait_timed_out:
  "Windows_call env F cmd
      (args2 (Windows_include F) @ [py_or timeout (VStr '''')] @ args2 (Windows_exclude_query F))
      True w = (Inr t, w') \<Longrightarrow> truthy t \<Longrightarrow>
   Windows__wait env F cmd timeout w = (Inr (Window 0), w')"
  by (simp add: Windows__wait_def bindM_def returnM_apply)

lemma Window_wait_timed_out:
  "handle__call env h cmd (args2 (handle_include h) @ [timeout]) hw PyNone True w = (Inr t, w') \<Longrightarrow>
   truthy t \<Longrightarrow>
   bindM (handle__call env h cmd (args2 (handle_include h) @ [timeout]) hw PyNone True)
     (\<lambda>timed_out. if timed_out = VNone then returnM b else returnM (\<not> truthy timed_out)) w =
   (Inr False, w')"
  by (auto simp: bindM_def returnM_apply)

text \<open>
  Claim C5. The expiry of a timeout is the wait command returning a truthy value. Then
  \<open>Windows.wait\<close>, \<open>wait_active\<close> and \<open>wait_inactive\<close> return \<open>Window(0)\<close>,
  \<open>Windows.wait_close\<close> returns \<open>False\<close>, and \<open>Window.wait_active\<close>, \<open>wait_inactive\<close>,
  \<open>wait_close\<close> and \<open>wait_hidden\<close> return \<open>False\<close>: a value, for every timeout
  argument, and never an exception.
\<close>

theorem timeout_expiry_is_a_return_value:
  "(Windows_call env F ''WinWait''
      (args2 (Windows_include F) @ [py_or timeout (VStr '''')] @ args2 (Windows_exclude_query F))
      True w = (Inr t, w') \<and> truthy t \<longrightarrow>
    Windows_wait env F no_args timeout w = (Inr (Window 0), w')) \<and>
   (Windows_call env F ''WinWaitActive''
      (args2 (Windows_include F) @ [py_or timeout (VStr '''')] @ args2 (Windows_exclude_query F))
      True w = (Inr t, w') \<and> truthy t \<longrightarrow>
    Windows_wait_active env F no_args timeout w = (Inr (Window 0), w')) \<and>
   (Windows_call env F ''WinWaitNotActive''
      (args2 (Windows_include F) @ [py_or timeout (VStr '''')] @ args2 (Windows_exclude_query F))
      True w = (Inr t, w') \<and> truthy t \<longrightarrow>
    Windows_wait_inactive env F no_args timeout w = (Inr (Window 0), w')) \<and>
   (Windows_call env F ''WinWaitClose''
      (args2 (Windows_include F) @ [py_or timeout (VStr '''')] @ args2 (Windows_exclude_query F))
      True w = (Inr t, w') \<and> truthy t \<longrightarrow>
    Windows_wait_close env F no_args timeout w = (Inr False, w')) \<and>
   (handle__call env h ''WinWaitActive'' (args2 (handle_include h) @ [timeout]) True PyNone True w =
      (Inr t, w') \<and> truthy t \<longrightarrow>
    Window_wait_active env h timeout w = (Inr False, w')) \<and>
   (handle__call env h ''WinWaitNotActive'' (args2 (handle_include h) @ [timeout]) True PyNone True w =
      (Inr t, w') \<and> truthy t \<longrightarrow>
    Window_wait_inactive env h timeout w = (Inr False, w')) \<and>
   (handle__call env h ''WinWaitClose'' (args2 (handle_include h) @ [timeout]) True PyNone True w =
      (Inr t, w') \<and> truthy t \<longrightarrow>
    Window_wait_close env h timeout w = (Inr False, w')) \<and>
   (handle__call env h ''WinWaitClose'' (args2 (handle_include h) @ [timeout]) False PyNone True w =
      (Inr t, w') \<and> truthy t \<longrightarrow>
    Window_wait_hidden env h timeout w = (Inr False, w'))"
proof -
  have "Windows_call env F ''WinWaitClose''
      (args2 (Windows_include F) @ [py_or timeout (VStr '''')] @ args2 (Windows_exclude_query F))
      True w = (Inr t, w') \<and> truthy t \<longrightarrow>
    Windows_wait_close env F no_args timeout w = (Inr False, w')"
    by (simp add: Windows_wait_close_def bindM_def returnM_apply)
  then show ?thesis
    by (simp add: Windows_wait_def Windows_wait_active_def Windows_wait_inactive_def
        Windows__wait_timed_out Window_wait_active_def Window_wait_inactive_def
        Window_wait_close_def Window_wait_hidden_def Window_wait_timed_out)
qed

text \<open>
  Both kinds of wait against the backend on which every wait times out.
\<close>

theorem timeout_expiry_witness:
  "Window_wait_active timeout_env (Window 7) (VInt 1) world0 =
     (Inr False,
      world0\<lparr>calls := [(''DetectHiddenWindows'', [VStr ''On'']),
                       (''SetWinDelay'', [VInt 100]),
                       (''WinWaitActive'', [VStr ''ahk_id 7'', VStr '''', VInt 1])]\<rparr>) \<and>
   Windows_wait timeout_env spec_notepad no_args (VInt 1) world0 =
     (Inr (Window 0),
      world0\<lparr>calls := [(''DetectHiddenWindows'', [VStr ''Off'']),
                       (''SetTitleMatchMode'', [VInt 1]),
                       (''SetTitleMatchMode'', [VStr ''fast'']),
                       (''SetWinDelay'', [VInt 100]),
                       (''WinWait'', [VStr ''ahk_class Notepad'', VStr '''', VInt 1,
                                      VStr ''Untitled'', VStr ''''])]\<rparr>)"
proof -
  let ?w1 = "world0\<lparr>calls := [(''DetectHiddenWindows'', [VStr ''On'']),
                       (''SetWinDelay'', [VInt 100]),
                       (''WinWaitActive'', [VStr ''ahk_id 7'', VStr '''', VInt 1])]\<rparr>"
  let ?w2 = "world0\<lparr>calls := [(''DetectHiddenWindows'', [VStr ''Off'']),
                       (''SetTitleMatchMode'', [VInt 1]),
                       (''SetTitleMatchMode'', [VStr ''fast'']),
                       (''SetWinDelay'', [VInt 100]),
                       (''WinWait'', [VStr ''ahk_class Notepad'', VStr '''', VInt 1,
                                      VStr ''Untitled'', VStr ''''])]\<rparr>"
  have c1: "handle__call timeout_env (Window 7) ''WinWaitActive''
      (args2 (handle_include (Window 7)) @ [VInt 1]) True PyNone True world0 = (Inr (VInt 1), ?w1)"
    by (simp add: handle__call_def WindowHandle__call_def bindM_def ahk_call_timeout
        set_win_delay_timeout [where p = 0] handle_include_def args2_def str_int_7 world0_def
        Settings_defaults_def)
  have c2: "Windows_call timeout_env spec_notepad ''WinWait''
      (args2 (Windows_include spec_notepad) @ [py_or (VInt 1) (VStr '''')] @
       args2 (Windows_exclude_query spec_notepad)) True world0 = (Inr (VInt 1), ?w2)"
    by (simp add: Windows_call_def has_none_def spec_notepad_def Windows_init_def bindM_def
        ahk_call_timeout set_title_match_mode_def set_win_delay_timeout [where p = 0]
        Windows_include_def Windows_exclude_query_def args2_def default3_def str_field_def
        py_or_def returnM_apply world0_def Settings_defaults_def)
  have r1: "Window_wait_active timeout_env (Window 7) (VInt 1) world0 = (Inr False, ?w1)"
    by (rule timeout_expiry_is_a_return_value
          [where t = "VInt 1", THEN conjunct2, THEN conjunct2, THEN conjunct2, THEN conjunct2,
            THEN conjunct1, rule_format])
       (use c1 in simp)
  have r2: "Windows_wait timeout_env spec_notepad no_args (VInt 1) world0 = (Inr (Window 0), ?w2)"
    by (rule timeout_expiry_is_a_return_value [where t = "VInt 1", THEN conjunct1, rule_format])
       (use c2 in simp)
  show ?thesis
    using r1 r2 by simp
qed

section \<open>Operations on the invalid handle\<close>

text \<open>
  The operations on a handle whose identifier is \<open>0\<close>: each returns its neutral value
  and leaves the world alone, \<open>send\<close> after it has run the key-delay helper.
\<close>

lemma invalid_handle_reads:
  "handle_id self = 0 \<Longrightarrow> 0 < recursion_limit env \<Longrightarrow>
     BaseWindow_exists env self = returnM False \<and>
     BaseWindow_style env self = returnM None \<and>
     BaseWindow_is_enabled env self = returnM None \<and>
     BaseWindow_is_visible env self = returnM False \<and>
     BaseWindow_class_name env self = returnM VNone \<and>
     BaseWindow_rect env self = returnM (VNone, VNone, VNone, VNone) \<and>
     BaseWindow_position env self = returnM (VNone, VNone) \<and>
     BaseWindow_x env self = returnM VNone \<and>
     BaseWindow_y env self = returnM VNone \<and>
     BaseWindow_width env self = returnM VNone \<and>
     BaseWindow_height env self = returnM VNone \<and>
     Window_is_active env self = returnM False"
proof -
  assume h: "handle_id self = 0" "0 < recursion_limit env"
  have r: "BaseWindow_rect env self = returnM (VNone, VNone, VNone, VNone)"
    using h by (cases self)
      (simp_all add: BaseWindow_rect_def handle__get_pos_def handle__call_zero py_eq_str_def)
  show ?thesis
    using h
    by (simp add: r BaseWindow_exists_def BaseWindow_style_zero BaseWindow_is_enabled_def
        BaseWindow_is_visible_def BaseWindow_class_name_def BaseWindow_position_def
        BaseWindow_x_def BaseWindow_y_def BaseWindow_width_def BaseWindow_height_def
        Window_is_active_def handle__call_zero py_eq_str_def)
qed

lemma invalid_handle_actions:
  "handle_id self = 0 \<Longrightarrow> 0 < recursion_limit env \<Longrightarrow>
     BaseWindow_move env self x y width height = returnM () \<and>
     BaseWindow__set env self subcmd value = returnM VNone \<and>
     BaseWindow_send_message env self msg w_param l_param seconds = returnM VNone \<and>
     BaseWindow_post_message env self msg w_param l_param = returnM None \<and>
     BaseWindow_send env self keys = bindM (set_key_delay env) (\<lambda>_. returnM ()) \<and>
     Window_wait_active env self timeout = returnM False \<and>
     Window_wait_inactive env self timeout = returnM True \<and>
     Window_wait_hidden env self timeout = returnM True \<and>
     Window_wait_close env self timeout = returnM True \<and>
     Window_activate env self timeout = returnM (if timeout \<noteq> VNone then Some False else None) \<and>
     Window_timed_action cmd env self timeout =
       returnM (if timeout \<noteq> VNone then Some True else None) \<and>
     Window_delayed_action cmd env self = returnM ()"
proof -
  assume h: "handle_id self = 0" "0 < recursion_limit env"
  have m: "BaseWindow_move env self x y width height = returnM ()"
    using h by (cases self)
      (simp_all add: BaseWindow_move_def handle__move_def handle__call_zero)
  show ?thesis
    using h
    by (simp add: m BaseWindow__set_def BaseWindow_send_message_def BaseWindow_post_message_def
        BaseWindow_send_def Window_wait_active_def Window_wait_inactive_def Window_wait_hidden_def
        Window_wait_close_def Window_activate_def Window_timed_action_def
        Window_delayed_action_def BaseWindow_exists_def handle__call_zero Let_def)
qed

lemma invalid_control_list_item_count:
  "handle_id self = 0 \<Longrightarrow> 0 < recursion_limit env \<Longrightarrow>
   Control_list_item_count env self = returnM VNone"
  by (simp add: Control_list_item_count_def BaseWindow_class_name_def handle__call_zero
      py_eq_str_def)

lemma invalid_control_choose_item_index:
  "handle_id self = 0 \<Longrightarrow> 0 < recursion_limit env \<Longrightarrow>
   Control_choose_item_index env self index =
     (if index < 0 then raiseM TypeError else returnM ())"
  by (simp add: Control_choose_item_index_def invalid_control_list_item_count py_add_int_def
      handle__call_zero)

text \<open>
  Claim C1 at its failing input. On the invalid control handle \<open>choose_item_index\<close>
  with a negative index adds the index to \<open>list_item_count\<close>, which is \<open>None\<close> there,
  and raises \<open>TypeError\<close>; with an index that is not negative it returns \<open>None\<close>.
\<close>

theorem choose_item_index_negative_on_invalid_handle:
  "Control_list_item_count silent_env (Control 0) world0 = (Inr VNone, world0) \<and>
   Control_choose_item_index silent_env (Control 0) (- 1) world0 = (Inl TypeError, world0) \<and>
   Control_choose_item_index silent_env (Control 0) 1 world0 = (Inr (), world0)"
proof -
  have "0 < recursion_limit silent_env"
    by (simp add: silent_env_def)
  then show ?thesis
    by (simp add: invalid_control_choose_item_index invalid_control_list_item_count
        raiseM_apply returnM_apply)
qed

section \<open>Restoring the settings after a scope\<close>

lemma assign_all_frame:
  "\<exists>w'. assign_all q assigns w = (Inr (), w') \<and> current_settings w' = current_settings w \<and>
        next_addr w' = next_addr w \<and> backend_state w' = backend_state w \<and> calls w' = calls w \<and>
        (\<forall>p. p \<noteq> q \<longrightarrow> heap w' p = heap w p)"
proof (induction assigns arbitrary: w)
  case Nil
  then show ?case by (simp add: returnM_apply)
next
  case (Cons a assigns)
  from Cons.IH [of "w\<lparr>heap := (heap w)(q := a (heap w q))\<rparr>"]
  show ?case
    by (auto simp: bindM_def setattrM_def)
qed

lemma scoped_body_frame:
  "\<exists>w'. scoped_body assigns failure q w =
          ((case failure of None \<Rightarrow> Inr () | Some e \<Rightarrow> Inl e), w') \<and>
        current_settings w' = current_settings w \<and> next_addr w' = next_addr w \<and>
        backend_state w' = backend_state w \<and> calls w' = calls w \<and>
        (\<forall>p. p \<noteq> q \<longrightarrow> heap w' p = heap w p)"
  using assign_all_frame [where q = q and assigns = assigns and w = w]
  by (auto simp: scoped_body_def bindM_def returnM_apply raiseM_apply split: option.splits)

lemma get_settings_ambient:
  "fst (bindM get_settings (\<lambda>p. getattrM p (\<lambda>s. s)) w) = Inr (ambient w)"
  by (simp add: get_settings_def ambient_def getattrM_def bindM_def Settings_copy_def
      set_settings_def returnM_apply split: option.splits)

lemma body_then_exit:
  "\<exists>we. (case scoped_body assigns failure c wd of
          (r, w') \<Rightarrow>
            (case SettingsManager_exit \<lparr>new_settings = c, prior_settings = Some prior\<rparr> w' of
               (Inl e, w'') \<Rightarrow> (Inl e, w'')
             | (Inr _, w'') \<Rightarrow> (r, w''))) =
         ((case failure of None \<Rightarrow> Inr () | Some e \<Rightarrow> Inl e), we\<lparr>current_settings := Some prior\<rparr>) \<and>
        next_addr we = next_addr wd \<and> backend_state we = backend_state wd \<and>
        calls we = calls wd \<and> (\<forall>p. p \<noteq> c \<longrightarrow> heap we p = heap wd p)"
  using scoped_body_frame [where assigns = assigns and failure = failure and q = c and w = wd]
  by (auto simp: SettingsManager_exit_def set_settings_def)

lemma with_local_settings_run:
  "local_settings settings w = (Inr \<lparr>new_settings = c, prior_settings = None\<rparr>, wb) \<Longrightarrow>
   get_settings wb = (Inr prior, wc) \<Longrightarrow>
   \<exists>we. with_local_settings settings (scoped_body assigns failure) w =
          ((case failure of None \<Rightarrow> Inr () | Some e \<Rightarrow> Inl e), we\<lparr>current_settings := Some prior\<rparr>) \<and>
        next_addr we = next_addr wc \<and> backend_state we = backend_state wc \<and>
        calls we = calls wc \<and> (\<forall>p. p \<noteq> c \<longrightarrow> heap we p = heap wc p)"
  using body_then_exit [where assigns = assigns and failure = failure and c = c and
      wd = "wc\<lparr>current_settings := Some c\<rparr>" and prior = prior]
  by (simp add: with_local_settings_def SettingsManager_activate_def set_settings_def bindM_def
      returnM_apply)

text \<open>
  Claim C6. Enter \<open>local_settings(settings)\<close>, assign any fields of the scoped copy,
  leave normally or by an exception. Afterwards the body's outcome is the outcome of the
  \<open>with\<close> statement (the exception goes on), the thread's settings read as they did
  before entry, the context variable refers to the same object as before when it was
  set, every object that existed before entry is unchanged, and no backend call was made.
\<close>

theorem scoped_settings_are_restored:
  assumes "allocated w"
    and "case settings of None \<Rightarrow> True | Some s \<Rightarrow> s < next_addr w"
  shows "fst (with_local_settings settings (scoped_body assigns failure) w) =
           (case failure of None \<Rightarrow> Inr () | Some e \<Rightarrow> Inl e) \<and>
         ambient (snd (with_local_settings settings (scoped_body assigns failure) w)) = ambient w \<and>
         current_settings (snd (with_local_settings settings (scoped_body assigns failure) w)) \<noteq> None \<and>
         (\<forall>p. current_settings w = Some p \<longrightarrow>
            current_settings (snd (with_local_settings settings (scoped_body assigns failure) w)) = Some p) \<and>
         (\<forall>q. q < next_addr w \<longrightarrow>
            heap (snd (with_local_settings settings (scoped_body assigns failure) w)) q = heap w q) \<and>
         calls (snd (with_local_settings settings (scoped_body assigns failure) w)) = calls w"
proof -
  let ?R = "with_local_settings settings (scoped_body assigns failure) w"
  have z: "0 < next_addr w"
    using assms(1) by (simp add: allocated_def default_settings_def)
  show ?thesis
  proof (cases "current_settings w")
    case (Some p)
    then have p: "p < next_addr w"
      using assms(1) by (simp add: allocated_def)
    define src where "src = (case settings of None \<Rightarrow> p | Some s \<Rightarrow> s)"
    define wb where "wb = w\<lparr>heap := (heap w)(next_addr w := heap w src), next_addr := Suc (next_addr w)\<rparr>"
    have ls: "local_settings settings w = (Inr \<lparr>new_settings = next_addr w, prior_settings = None\<rparr>, wb)"
      using Some
      by (cases settings)
         (simp_all add: local_settings_def SettingsManager_init_def Settings_copy_def bindM_def
            get_settings_def returnM_apply wb_def src_def)
    have gs: "get_settings wb = (Inr p, wb)"
      using Some by (simp add: get_settings_def wb_def)
    from with_local_settings_run [OF ls gs, where assigns = assigns and failure = failure]
    obtain we where
      r: "?R = ((case failure of None \<Rightarrow> Inr () | Some e \<Rightarrow> Inl e), we\<lparr>current_settings := Some p\<rparr>)"
      and f: "calls we = calls wb" "\<forall>q. q \<noteq> next_addr w \<longrightarrow> heap we q = heap wb q"
      by blast
    show ?thesis
      using r f p Some by (auto simp: ambient_def wb_def)
  next
    case None
    show ?thesis
    proof (cases settings)
      case N: None
      define p where "p = next_addr w"
      define wa where "wa = w\<lparr>heap := (heap w)(p := heap w default_settings), next_addr := Suc p,
        current_settings := Some p\<rparr>"
      define wb where "wb = wa\<lparr>heap := (heap wa)(Suc p := heap wa p), next_addr := Suc (Suc p)\<rparr>"
      have ls: "local_settings settings w = (Inr \<lparr>new_settings = Suc p, prior_settings = None\<rparr>, wb)"
        using None N
        by (simp add: local_settings_def SettingsManager_init_def Settings_copy_def bindM_def
            get_settings_def set_settings_def returnM_apply wb_def wa_def p_def)
      have gs: "get_settings wb = (Inr p, wb)"
        by (simp add: get_settings_def wb_def wa_def)
      from with_local_settings_run [OF ls gs, where assigns = assigns and failure = failure]
      obtain we where
        r: "?R = ((case failure of None \<Rightarrow> Inr () | Some e \<Rightarrow> Inl e), we\<lparr>current_settings := Some p\<rparr>)"
        and f: "calls we = calls wb" "\<forall>q. q \<noteq> Suc p \<longrightarrow> heap we q = heap wb q"
        by blast
      show ?thesis
        using r f None z by (auto simp: ambient_def wb_def wa_def p_def default_settings_def)
    next
      case (Some s)
      define c where "c = next_addr w"
      define wb where "wb = w\<lparr>heap := (heap w)(c := heap w s), next_addr := Suc c\<rparr>"
      define wc where "wc = wb\<lparr>heap := (heap wb)(Suc c := heap wb default_settings),
        next_addr := Suc (Suc c), current_settings := Some (Suc c)\<rparr>"
      have ls: "local_settings settings w = (Inr \<lparr>new_settings = c, prior_settings = None\<rparr>, wb)"
        using Some
        by (simp add: local_settings_def SettingsManager_init_def Settings_copy_def bindM_def
            returnM_apply wb_def c_def)
      have gs: "get_settings wb = (Inr (Suc c), wc)"
        using None
        by (simp add: get_settings_def Settings_copy_def set_settings_def bindM_def returnM_apply
            wb_def wc_def)
      from with_local_settings_run [OF ls gs, where assigns = assigns and failure = failure]
      obtain we where
        r: "?R = ((case failure of None \<Rightarrow> Inr () | Some e \<Rightarrow> Inl e), we\<lparr>current_settings := Some (Suc c)\<rparr>)"
        and f: "calls we = calls wc" "\<forall>q. q \<noteq> c \<longrightarrow> heap we q = heap wc q"
        by blast
      show ?thesis
        using r f None z by (auto simp: ambient_def wb_def wc_def c_def default_settings_def)
    qed
  qed
qed

text \<open>
  The docstring's example with a failing body: \<open>win_delay\<close> is set to \<open>0\<close> on the
  copy (address \<open>1\<close>), \<open>ValueError\<close> goes on, and the ambient object at address \<open>0\<close>
  still has \<open>win_delay = 0.1\<close>. The same body, ending normally, in a thread that has not
  read its settings yet: afterwards the thread's settings are the defaults.
\<close>

theorem scoped_settings_witness:
  "allocated world0 \<and> allocated world_unset \<and>
   fst (with_local_settings None (scoped_body [win_delay_zero] (Some ValueError)) world0) =
     Inl ValueError \<and>
   current_settings (snd (with_local_settings None (scoped_body [win_delay_zero] (Some ValueError)) world0)) =
     Some 0 \<and>
   win_delay (heap (snd (with_local_settings None (scoped_body [win_delay_zero] (Some ValueError)) world0)) 0) =
     Some 0.1 \<and>
   win_delay (heap (snd (with_local_settings None (scoped_body [win_delay_zero] (Some ValueError)) world0)) 1) =
     Some 0 \<and>
   fst (with_local_settings None (scoped_body [win_delay_zero] None) world_unset) = Inr () \<and>
   ambient (snd (with_local_settings None (scoped_body [win_delay_zero] None) world_unset)) =
     Settings_defaults \<and>
   current_settings (snd (with_local_settings None (scoped_body [win_delay_zero] None) world_unset)) =
     Some 1"
proof -
  let ?R = "with_local_settings None (scoped_body [win_delay_zero] (Some ValueError)) world0"
  let ?U = "with_local_settings None (scoped_body [win_delay_zero] None) world_unset"
  have a: "allocated world0" "allocated world_unset"
    by (simp_all add: allocated_def world0_def world_unset_def default_settings_def)
  have c: "current_settings world0 = Some 0" "(0::nat) < next_addr world0"
    "win_delay (heap world0 0) = Some 0.1"
    by (simp_all add: world0_def Settings_defaults_def)
  have u: "ambient world_unset = Settings_defaults"
    by (simp add: ambient_def world_unset_def world0_def)
  note t = scoped_settings_are_restored
    [where w = world0 and settings = None and assigns = "[win_delay_zero]" and
      failure = "Some ValueError", OF a(1)]
  note t' = scoped_settings_are_restored
    [where w = world_unset and settings = None and assigns = "[win_delay_zero]" and
      failure = None, OF a(2)]
  have 1: "fst ?R = Inl ValueError"
    using t by simp
  have 2: "current_settings (snd ?R) = Some 0"
    using t c by simp
  have 3: "win_delay (heap (snd ?R) 0) = Some 0.1"
    using t c by simp
  have 4: "win_delay (heap (snd ?R) 1) = Some 0"
    by (simp add: with_local_settings_def local_settings_def SettingsManager_init_def
        SettingsManager_activate_def SettingsManager_exit_def scoped_body_def setattrM_def
        get_settings_def set_settings_def Settings_copy_def bindM_def returnM_apply raiseM_apply
        world0_def win_delay_zero_def)
  have 5: "fst ?U = Inr ()"
    using t' by simp
  have 6: "ambient (snd ?U) = Settings_defaults"
    using t' u by simp
  have 7: "current_settings (snd ?U) = Some 1"
    by (simp add: with_local_settings_def local_settings_def SettingsManager_init_def
        SettingsManager_activate_def SettingsManager_exit_def scoped_body_def setattrM_def
        get_settings_def set_settings_def Settings_copy_def bindM_def returnM_apply raiseM_apply
        world0_def world_unset_def win_delay_zero_def default_settings_def)
  show ?thesis
    using a 1 2 3 4 5 6 7 by simp
qed

section \<open>Moving a window and reading its rectangle\<close>

lemma ahk_call_config:
  assumes "honours_geometry (backend env) geom"
    and "geom (backend_state w) n = Some g"
    and "cmd = ''DetectHiddenWindows'' \<or> cmd = ''SetWinDelay''"
  shows "\<exists>r w'. ahk_call env cmd args w = (Inr r, w') \<and>
           geom (backend_state w') = geom (backend_state w)"
proof -
  obtain x y wd ht where g: "geom (backend_state w) n = Some (x, y, wd, ht)"
    using assms(2) by (cases g) auto
  from assms(1) g assms(3)
  obtain r s' where "backend env (backend_state w) cmd args = (Inr r, s')"
    and "geom s' = geom (backend_state w)"
    unfolding honours_geometry_def by blast
  then show ?thesis
    by (simp add: ahk_call_def)
qed

lemma get_settings_total:
  "\<exists>p w'. get_settings w = (Inr p, w') \<and> backend_state w' = backend_state w"
  by (simp add: get_settings_def Settings_copy_def set_settings_def bindM_def returnM_apply
      split: option.splits)

lemma set_win_delay_geometry:
  assumes "honours_geometry (backend env) geom"
    and "geom (backend_state w) n = Some g"
  shows "\<exists>w'. set_win_delay env w = (Inr (), w') \<and>
           geom (backend_state w') = geom (backend_state w)"
proof -
  obtain p w1 where p: "get_settings w = (Inr p, w1)" "backend_state w1 = backend_state w"
    using get_settings_total by blast
  have "geom (backend_state w1) n = Some g"
    using assms(2) p(2) by simp
  from ahk_call_config [OF assms(1) this, where cmd = "''SetWinDelay''" and
      args = "[VInt (optional_ms (win_delay (heap w1 p)))]"]
  obtain r w2 where "ahk_call env ''SetWinDelay'' [VInt (optional_ms (win_delay (heap w1 p)))] w1 = (Inr r, w2)"
    and "geom (backend_state w2) = geom (backend_state w1)"
    by auto
  then show ?thesis
    using p by (simp add: set_win_delay_def bindM_def getattrM_def returnM_apply)
qed

lemma WindowHandle__call_move:
  assumes "honours_geometry (backend env) geom"
    and "geom (backend_state w) n = Some (x, y, wd, ht)"
    and "n \<noteq> 0"
  shows "\<exists>r w'. WindowHandle__call env (Window n) ''WinMove''
             [VStr (''ahk_id '' @ str_int n), VStr '''', a, b, c, d] True PyNone True w = (Inr r, w') \<and>
           geom (backend_state w') n = Some (moved a x, moved b y, moved c wd, moved d ht)"
proof -
  from ahk_call_config [OF assms(1,2), where cmd = "''DetectHiddenWindows''" and args = "[VStr ''On'']"]
  obtain r1 w1 where 1: "ahk_call env ''DetectHiddenWindows'' [VStr ''On''] w = (Inr r1, w1)"
    and g1: "geom (backend_state w1) = geom (backend_state w)"
    by auto
  have "geom (backend_state w1) n = Some (x, y, wd, ht)"
    using g1 assms(2) by simp
  from set_win_delay_geometry [OF assms(1) this]
  obtain w2 where 2: "set_win_delay env w1 = (Inr (), w2)"
    and g2: "geom (backend_state w2) = geom (backend_state w1)"
    by auto
  have "geom (backend_state w2) n = Some (x, y, wd, ht)"
    using g1 g2 assms(2) by simp
  with assms(1)
  obtain r3 s3 where
    "backend env (backend_state w2) ''WinMove''
       [VStr (''ahk_id '' @ str_int n), VStr '''', a, b, c, d] = (Inr r3, s3)"
    and "geom s3 n = Some (moved a x, moved b y, moved c wd, moved d ht)"
    unfolding honours_geometry_def by blast
  then show ?thesis
    using 1 2 assms(3)
    by (simp add: WindowHandle__call_def bindM_def ahk_call_def returnM_apply)
qed

lemma WindowHandle__call_get_pos:
  assumes "honours_geometry (backend env) geom"
    and "geom (backend_state w) n = Some (x, y, wd, ht)"
    and "n \<noteq> 0"
  shows "\<exists>d w'. WindowHandle__call env (Window n) ''WinGetPos''
             [VStr (''ahk_id '' @ str_int n), VStr ''''] True PyNone False w = (Inr (VDict d), w') \<and>
           map_of d ''X'' = Some (VInt x) \<and> map_of d ''Y'' = Some (VInt y) \<and>
           map_of d ''Width'' = Some (VInt wd) \<and> map_of d ''Height'' = Some (VInt ht) \<and>
           geom (backend_state w') = geom (backend_state w)"
proof -
  from ahk_call_config [OF assms(1,2), where cmd = "''DetectHiddenWindows''" and args = "[VStr ''On'']"]
  obtain r1 w1 where 1: "ahk_call env ''DetectHiddenWindows'' [VStr ''On''] w = (Inr r1, w1)"
    and g1: "geom (backend_state w1) = geom (backend_state w)"
    by auto
  have "geom (backend_state w1) n = Some (x, y, wd, ht)"
    using g1 assms(2) by simp
  with assms(1)
  obtain dict s2 where
    "backend env (backend_state w1) ''WinGetPos'' [VStr (''ahk_id '' @ str_int n), VStr ''''] =
       (Inr (VDict dict), s2)"
    and "map_of dict ''X'' = Some (VInt x)" "map_of dict ''Y'' = Some (VInt y)"
    and "map_of dict ''Width'' = Some (VInt wd)" "map_of dict ''Height'' = Some (VInt ht)"
    and "geom s2 = geom (backend_state w1)"
    unfolding honours_geometry_def by blast
  then show ?thesis
    using 1 g1 assms(3)
    by (simp add: WindowHandle__call_def bindM_def ahk_call_def returnM_apply)
qed

lemma rect_reads_geometry:
  assumes "honours_geometry (backend env) geom"
    and "geom (backend_state w) n = Some (x, y, wd, ht)"
    and "n \<noteq> 0"
  shows "fst (BaseWindow_rect env (Window n) w) = Inr (VInt x, VInt y, VInt wd, VInt ht) \<and>
         geom (backend_state (snd (BaseWindow_rect env (Window n) w))) = geom (backend_state w)"
proof -
  from WindowHandle__call_get_pos [OF assms]
  obtain d w' where "WindowHandle__call env (Window n) ''WinGetPos''
             [VStr (''ahk_id '' @ str_int n), VStr ''''] True PyNone False w = (Inr (VDict d), w')"
    and "map_of d ''X'' = Some (VInt x)" "map_of d ''Y'' = Some (VInt y)"
    and "map_of d ''Width'' = Some (VInt wd)" "map_of d ''Height'' = Some (VInt ht)"
    and "geom (backend_state w') = geom (backend_state w)"
    by blast
  then show ?thesis
    by (simp add: BaseWindow_rect_def handle__get_pos_def handle__call_def handle_include_def
        args2_def bindM_def subscript_def py_eq_str_def returnM_apply)
qed

lemma move_sets_geometry:
  assumes "honours_geometry (backend env) geom"
    and "geom (backend_state w) n = Some (x, y, wd, ht)"
    and "n \<noteq> 0"
  shows "fst (BaseWindow_move env (Window n) new_x new_y new_width new_height w) = Inr () \<and>
         geom (backend_state (snd (BaseWindow_move env (Window n) new_x new_y new_width new_height w))) n =
           Some (case new_x of None \<Rightarrow> x | Some v \<Rightarrow> v, case new_y of None \<Rightarrow> y | Some v \<Rightarrow> v,
                 case new_width of None \<Rightarrow> wd | Some v \<Rightarrow> v,
                 case new_height of None \<Rightarrow> ht | Some v \<Rightarrow> v)"
proof -
  let ?a = "default3 (\<lambda>v. VInt (the v)) new_x (VStr '''') None"
  let ?b = "default3 (\<lambda>v. VInt (the v)) new_y (VStr '''') None"
  let ?c = "default3 (\<lambda>v. VInt (the v)) new_width (VStr '''') None"
  let ?d = "default3 (\<lambda>v. VInt (the v)) new_height (VStr '''') None"
  from WindowHandle__call_move [OF assms, of ?a ?b ?c ?d]
  obtain r w' where "WindowHandle__call env (Window n) ''WinMove''
             [VStr (''ahk_id '' @ str_int n), VStr '''', ?a, ?b, ?c, ?d] True PyNone True w = (Inr r, w')"
    and "geom (backend_state w') n = Some (moved ?a x, moved ?b y, moved ?c wd, moved ?d ht)"
    by blast
  moreover have "\<And>v old. moved (default3 (\<lambda>v. VInt (the v)) v (VStr '''') None) old =
      (case v of None \<Rightarrow> old | Some k \<Rightarrow> k)"
    by (simp add: moved_def default3_def split: option.splits)
  ultimately show ?thesis
    by (simp add: BaseWindow_move_def handle__move_def handle__call_def handle_include_def
        args2_def bindM_def returnM_apply)
qed

text \<open>
  Claim C9. Each of \<open>x\<close>, \<open>y\<close>, \<open>width\<close>, \<open>height\<close> reads the whole rectangle and
  projects one component; each of their setters is a call of \<open>move\<close> with the other
  coordinates left out. On a backend that honours the geometry contract, for an existing
  window with rectangle \<open>(x0, y0, w0, h0)\<close>: \<open>move(x=a, y=b)\<close> returns \<open>None\<close> and the
  rectangle read in the world it leaves is \<open>(a, b, w0, h0)\<close>.
\<close>

theorem move_then_rect:
  assumes "honours_geometry (backend env) geom"
    and "geom (backend_state w) n = Some (x0, y0, w0, h0)"
    and "n \<noteq> 0"
  shows "BaseWindow_x env self = bindM (BaseWindow_rect env self) (\<lambda>(x, _, _, _). returnM x) \<and>
         BaseWindow_y env self = bindM (BaseWindow_rect env self) (\<lambda>(_, y, _, _). returnM y) \<and>
         BaseWindow_width env self =
           bindM (BaseWindow_rect env self) (\<lambda>(_, _, width, _). returnM width) \<and>
         BaseWindow_height env self =
           bindM (BaseWindow_rect env self) (\<lambda>(_, _, _, height). returnM height) \<and>
         BaseWindow_set_x env self v = BaseWindow_move env self v None None None \<and>
         BaseWindow_set_y env self v = BaseWindow_move env self None v None None \<and>
         BaseWindow_set_width env self v = BaseWindow_move env self None None v None \<and>
         BaseWindow_set_height env self v = BaseWindow_move env self None None None v \<and>
         fst (BaseWindow_rect env (Window n) w) = Inr (VInt x0, VInt y0, VInt w0, VInt h0) \<and>
         fst (BaseWindow_move env (Window n) (Some a) (Some b) None None w) = Inr () \<and>
         fst (BaseWindow_rect env (Window n)
                (snd (BaseWindow_move env (Window n) (Some a) (Some b) None None w))) =
           Inr (VInt a, VInt b, VInt w0, VInt h0)"
proof -
  let ?w1 = "snd (BaseWindow_move env (Window n) (Some a) (Some b) None None w)"
  from move_sets_geometry [OF assms, of "Some a" "Some b" None None]
  have m: "fst (BaseWindow_move env (Window n) (Some a) (Some b) None None w) = Inr ()"
    and g: "geom (backend_state ?w1) n = Some (a, b, w0, h0)"
    by simp_all
  from rect_reads_geometry [OF assms(1) g assms(3)]
  have r: "fst (BaseWindow_rect env (Window n) ?w1) = Inr (VInt a, VInt b, VInt w0, VInt h0)"
    by simp
  from rect_reads_geometry [OF assms]
  have r0: "fst (BaseWindow_rect env (Window n) w) = Inr (VInt x0, VInt y0, VInt w0, VInt h0)"
    by simp
  show ?thesis
    using m r r0
    by (simp add: BaseWindow_x_def BaseWindow_y_def BaseWindow_width_def BaseWindow_height_def
        BaseWindow_set_x_def BaseWindow_set_y_def BaseWindow_set_width_def
        BaseWindow_set_height_def)
qed

lemma desk_backend_honours_geometry: "honours_geometry desk_backend desk_geom"
  unfolding honours_geometry_def
  by (auto simp: desk_backend_def desk_geom_def str_int_7 split: if_splits)

lemma move_calls:
  "calls (snd (BaseWindow_move desk_env (Window 7) (Some 10) (Some 20) None None desk_world)) =
     [(''DetectHiddenWindows'', [VStr ''On'']),
      (''SetWinDelay'', [VInt 100]),
      (''WinMove'', [VStr ''ahk_id 7'', VStr '''', VInt 10, VInt 20, VStr '''', VStr ''''])]"
  by (simp add: BaseWindow_move_def handle__move_def handle__call_def WindowHandle__call_def
      handle_include_def args2_def bindM_def ahk_call_def returnM_apply default3_def
      set_win_delay_def get_settings_def getattrM_def desk_env_def desk_world_def
      desk_backend_def str_int_7 Settings_defaults_def optional_ms_tenth)

text \<open>
  \<open>move(x=10, y=20)\<close> on window \<open>7\<close> at \<open>(100, 200, 640, 480)\<close>, with the three
  backend calls the move makes.
\<close>

theorem move_then_rect_witness:
  "honours_geometry desk_backend desk_geom \<and>
   desk_geom (backend_state desk_world) 7 = Some (100, 200, 640, 480) \<and>
   fst (BaseWindow_rect desk_env (Window 7) desk_world) =
     Inr (VInt 100, VInt 200, VInt 640, VInt 480) \<and>
   fst (BaseWindow_move desk_env (Window 7) (Some 10) (Some 20) None None desk_world) = Inr () \<and>
   fst (BaseWindow_rect desk_env (Window 7)
          (snd (BaseWindow_move desk_env (Window 7) (Some 10) (Some 20) None None desk_world))) =
     Inr (VInt 10, VInt 20, VInt 640, VInt 480) \<and>
   calls (snd (BaseWindow_move desk_env (Window 7) (Some 10) (Some 20) None None desk_world)) =
     [(''DetectHiddenWindows'', [VStr ''On'']),
      (''SetWinDelay'', [VInt 100]),
      (''WinMove'', [VStr ''ahk_id 7'', VStr '''', VInt 10, VInt 20, VStr '''', VStr ''''])]"
proof -
  have h: "honours_geometry (backend desk_env) desk_geom"
    by (simp add: desk_env_def desk_backend_honours_geometry)
  have g: "desk_geom (backend_state desk_world) 7 = Some (100, 200, 640, 480)"
    by (simp add: desk_geom_def desk_world_def)
  have n: "(7::int) \<noteq> 0"
    by simp
  from move_then_rect [OF h g n, of "Window 7" None 10 20]
  show ?thesis
    using g move_calls by (simp add: desk_backend_honours_geometry)
qed

end
